theory Spec2Isabelle
  imports Complex_Main "HOL-Library.Sublist"
begin

section \<open>JSON values and the Python operations used on them\<close>

text \<open>
  Decoded JSON as the code sees it after \<^verbatim>\<open>loads\<close> or \<^verbatim>\<open>resp.json()\<close>. A Python dict is
  an association list in insertion order; \<open>JNull\<close> is Python's \<^verbatim>\<open>None\<close>. JSON numbers with
  a fractional part (Python floats) are not among the decoded values.
\<close>

datatype json =
    JNull
  | JBool bool
  | JInt int
  | JStr string
  | JList "json list"
  | JDict "(string \<times> json) list"

type_synonym dict = "(string \<times> json) list"

datatype py_error =
    KeyError
  | AttributeError
  | TypeError
  | ValueError
  | IndexError
  | RecursionError
  | JSONDecodeError
  | OverflowError
  | ClientError

text \<open>\<^verbatim>\<open>k in d\<close> and \<^verbatim>\<open>d.get(k, None)\<close> on a dict.\<close>

definition has_key :: "string \<Rightarrow> dict \<Rightarrow> bool" where
  "has_key k d = (map_of d k \<noteq> None)"

definition dict_get :: "dict \<Rightarrow> string \<Rightarrow> json" where
  "dict_get d k = (case map_of d k of None \<Rightarrow> JNull | Some v \<Rightarrow> v)"

text \<open>\<^verbatim>\<open>d[k] = v\<close>: an existing key keeps its place, a new key goes to the end.\<close>

fun dict_set :: "string \<Rightarrow> json \<Rightarrow> dict \<Rightarrow> dict" where
  "dict_set k v [] = [(k, v)]"
| "dict_set k v (p # ps) = (if fst p = k then (k, v) # ps else p # dict_set k v ps)"

text \<open>
  \<^verbatim>\<open>x == n\<close> for an integer literal \<open>n\<close>: Python's \<^verbatim>\<open>True\<close> and \<^verbatim>\<open>False\<close> compare
  equal to 1 and 0; strings, lists, dicts and \<^verbatim>\<open>None\<close> equal no integer.
\<close>

fun py_eq_int :: "json \<Rightarrow> int \<Rightarrow> bool" where
  "py_eq_int (JInt i) n = (i = n)"
| "py_eq_int (JBool b) n = ((if b then 1 else 0) = n)"
| "py_eq_int _ n = False"

text \<open>\<^verbatim>\<open>x in codes\<close> for a collection of integers: membership by \<^verbatim>\<open>==\<close>.\<close>

definition py_in_ints :: "json \<Rightarrow> int list \<Rightarrow> bool" where
  "py_in_ints x codes = list_ex (py_eq_int x) codes"

fun is_dict :: "json \<Rightarrow> bool" where
  "is_dict (JDict d) = True"
| "is_dict _ = False"

section \<open>The request layer: \<^verbatim>\<open>Session\<close> in http.py\<close>

text \<open>
  What \<^verbatim>\<open>_request\<close> reads of an aiohttp response: \<^verbatim>\<open>resp.ok\<close>, the value of
  \<^verbatim>\<open>resp.headers.get("content-type", "")\<close>, and the outcome of \<^verbatim>\<open>await resp.json()\<close>
  (\<open>None\<close> when decoding the body raises).
\<close>

record response =
  ok :: bool
  status :: int
  content_type :: string
  json_body :: "json option"

datatype log_entry =
    Warning string response
  | Error "json option" py_error

text \<open>
  The session: its two configuration flags, and what it has done so far. \<open>issued\<close> lists
  the calls of \<^verbatim>\<open>self._session.request(method, url, **kwargs)\<close> in order, each with the
  value of \<^verbatim>\<open>retry\<close> it was made under; \<open>log\<close> is what went to the logger.
\<close>

record Session =
  is_retry :: bool
  is_log_error :: bool
  issued :: "(string \<times> string \<times> bool) list"
  log :: "log_entry list"

text \<open>
  The network is a parameter: the outcome of the \<open>i\<close>-th call of
  \<^verbatim>\<open>self._session.request\<close>, an exception or a response.
\<close>

type_synonym network = "nat \<Rightarrow> py_error + response"

definition Session_warning :: "string \<Rightarrow> response \<Rightarrow> Session \<Rightarrow> Session" where
  "Session_warning url resp st = st\<lparr>log := log st @ [Warning url resp]\<rparr>"

text \<open>
  \<^verbatim>\<open>retry_err_code\<close> comes from \<^verbatim>\<open>_utils\<close>, which is not among the sources: it is the
  parameter \<open>retry_err_code\<close>, a collection of integers.
\<close>

function Session_request ::
  "int list \<Rightarrow> network \<Rightarrow> string \<Rightarrow> string \<Rightarrow> bool \<Rightarrow> Session \<Rightarrow> (py_error + response) \<times> Session"
where
  "Session_request retry_err_code net method url retry st =
     (let st1 = st\<lparr>issued := issued st @ [(method, url, retry)]\<rparr> in
      case net (length (issued st)) of
        Inl e \<Rightarrow> (Inl e, st1)
      | Inr resp \<Rightarrow>
          if ok resp then (Inr resp, st1)
          else
            let st2 = (if is_log_error st1 \<and> (\<not> is_retry st1 \<or> retry)
                       then Session_warning url resp st1 else st1) in
            if is_retry st2 \<and> \<not> retry then
              if content_type resp = ''application/json'' then
                (case json_body resp of
                   None \<Rightarrow> (Inl JSONDecodeError, st2)
                 | Some json_ \<Rightarrow>
                     if \<not> is_dict json_
                        \<or> \<not> py_in_ints (case json_ of JDict d \<Rightarrow> dict_get d ''code'' | _ \<Rightarrow> JNull)
                                          retry_err_code
                     then (Inr resp, Session_warning url resp st2)
                     else Session_request retry_err_code net method url True st2)
              else Session_request retry_err_code net method url True st2
            else (Inr resp, st2))"
  by pat_completeness auto
termination
  by (relation "measure (\<lambda>(c, n, m, u, retry, st). if retry then 0 else 1)") auto

declare Session_request.simps [simp del]

text \<open>
  \<^verbatim>\<open>__getattr__\<close>: Python calls it only for a name that normal lookup does not find. It
  returns the closure \<^verbatim>\<open>wrap\<close> for the five verbs and falls off its end otherwise.
\<close>

datatype attr = Wrap string | PyNone

definition Session_getattr :: "string \<Rightarrow> attr" where
  "Session_getattr item =
     (if item \<in> set [''get'', ''post'', ''delete'', ''patch'', ''put''] then Wrap item else PyNone)"

text \<open>
  \<^verbatim>\<open>wrap(*args, **kwargs)\<close>. \<^verbatim>\<open>Queue.create_task\<close> is in \<^verbatim>\<open>_queue\<close>, not among the
  sources: its outcome, a task handle or a raised \<^verbatim>\<open>Exception\<close>, is the parameter
  \<open>submission\<close>. The handler formats \<^verbatim>\<open>args[0]\<close> into the message, which raises
  \<^verbatim>\<open>IndexError\<close> from inside the handler when there is no positional argument.
  The result \<open>Inr None\<close> is the function falling off its end.
\<close>

definition wrap ::
  "string \<Rightarrow> json list \<Rightarrow> (py_error + 'task) \<Rightarrow> Session \<Rightarrow> (py_error + 'task option) \<times> Session"
where
  "wrap item args submission st =
     (case submission of
        Inr task \<Rightarrow> (Inr (Some task), st)
      | Inl e \<Rightarrow>
          (case args of
             [] \<Rightarrow> (Inl IndexError, st)
           | url # _ \<Rightarrow> (Inr None, st\<lparr>log := log st @ [Error (Some url) e]\<rparr>)))"

section \<open>Strings as Python handles them\<close>

text \<open>
  \<^verbatim>\<open>str.strip()\<close> removes the characters for which \<^verbatim>\<open>isspace()\<close> holds. A \<open>char\<close>
  is a code point below 256 here; of those, Python counts as whitespace 9 to 13, 28 to 32,
  133 and 160.
\<close>

definition is_space :: "char \<Rightarrow> bool" where
  "is_space c = ((of_char c :: nat) \<in> set [9, 10, 11, 12, 13, 28, 29, 30, 31, 32, 133, 160])"

definition py_strip :: "string \<Rightarrow> string" where
  "py_strip s = rev (dropWhile is_space (rev (dropWhile is_space s)))"

text \<open>\<^verbatim>\<open>s.find(sub)\<close>: the index of the first occurrence of \<open>sub\<close> in \<open>s\<close>, or -1.\<close>

fun py_find :: "string \<Rightarrow> string \<Rightarrow> int" where
  "py_find [] sub = (if sub = [] then 0 else - 1)"
| "py_find (c # t) sub =
     (if prefix sub (c # t) then 0
      else (let r = py_find t sub in if r < 0 then - 1 else r + 1))"

text \<open>\<^verbatim>\<open>s.replace(sub, '', 1)\<close>: \<open>s\<close> without the first occurrence of \<open>sub\<close>.\<close>

fun py_replace_first :: "string \<Rightarrow> string \<Rightarrow> string" where
  "py_replace_first [] sub = []"
| "py_replace_first (c # t) sub =
     (if prefix sub (c # t) then drop (length sub) (c # t)
      else c # py_replace_first t sub)"

text \<open>
  \<^verbatim>\<open>a == b\<close> on two decoded values: a bool equals the integer 0 or 1 it stands for,
  otherwise the values are compared as they are (identifiers are scalars).
\<close>

fun py_eq :: "json \<Rightarrow> json \<Rightarrow> bool" where
  "py_eq (JBool b) (JInt n) = ((if b then 1 else 0) = n)"
| "py_eq (JInt n) (JBool b) = ((if b then 1 else 0) = n)"
| "py_eq x y = (x = y)"

text \<open>\<^verbatim>\<open>x[k]\<close>: \<^verbatim>\<open>KeyError\<close> on a dict without \<open>k\<close>, \<^verbatim>\<open>TypeError\<close> on a value that is no dict.\<close>

fun subscript :: "json \<Rightarrow> string \<Rightarrow> py_error + json" where
  "subscript (JDict d) k = (case map_of d k of None \<Rightarrow> Inl KeyError | Some v \<Rightarrow> Inr v)"
| "subscript _ k = Inl TypeError"

text \<open>
  \<^verbatim>\<open>data["d"]\<close> where the code goes on to use it as a dict. On a payload that is no
  dict each of these places ends in an exception before anything is dispatched (a
  \<^verbatim>\<open>TypeError\<close>; in the message branch an \<^verbatim>\<open>AttributeError\<close> may come first); here it is
  \<^verbatim>\<open>TypeError\<close> at once.
\<close>

definition get_d :: "dict \<Rightarrow> py_error + dict" where
  "get_d data =
     (case map_of data ''d'' of
        None \<Rightarrow> Inl KeyError
      | Some (JDict d) \<Rightarrow> Inr d
      | Some _ \<Rightarrow> Inl TypeError)"

section \<open>Python floats\<close>

text \<open>
  A Python float is an IEEE 754 double. The pair \<open>(m, e)\<close> of integers stands for the
  number \<open>m * 2 ^ e\<close>; a double is such a number whose \<open>m\<close> has at most 53 bits. Only
  what \<^verbatim>\<open>float(n * 0.001)\<close> needs for an integer \<open>n\<close> is here: the conversion of an integer
  and the product of two doubles, both rounded to the nearest double, a tie going to the
  even one. The results stay in the range of normal doubles (the product is 0 or at least
  0.001 in size, and an integer too large to convert is an \<^verbatim>\<open>OverflowError\<close> before it
  gets here), so there is neither underflow nor infinity.
\<close>

type_synonym double = "int \<times> int"

definition double_value :: "double \<Rightarrow> rat" where
  "double_value x = of_int (fst x) * 2 powi (snd x)"

text \<open>\<^verbatim>\<open>n.bit_length()\<close> of a natural number.\<close>

fun bit_length :: "nat \<Rightarrow> nat" where
  "bit_length n = (if n = 0 then 0 else Suc (bit_length (n div 2)))"

declare bit_length.simps [simp del]

text \<open>The integer nearest to \<open>a / d\<close> for a positive \<open>d\<close>, the even one of two equally near.\<close>

definition rne_div :: "int \<Rightarrow> int \<Rightarrow> int" where
  "rne_div a d =
     (let q = a div d; r = a mod d
      in if 2 * r < d then q
         else if d < 2 * r then q + 1
         else if even q then q else q + 1)"

text \<open>The double nearest to \<open>m * 2 ^ e\<close>: \<open>m\<close> cut to 53 bits.\<close>

definition round53 :: "int \<Rightarrow> int \<Rightarrow> double" where
  "round53 m e =
     (let k = int (bit_length (nat \<bar>m\<bar>)) - 53
      in if k \<le> 0 then (m, e) else (rne_div m (2 ^ nat k), e + k))"

text \<open>\<^verbatim>\<open>float(n)\<close> for an integer, and \<^verbatim>\<open>x * y\<close> for two floats.\<close>

definition float_of_int :: "int \<Rightarrow> double" where
  "float_of_int n = round53 n 0"

definition float_mul :: "double \<Rightarrow> double \<Rightarrow> double" where
  "float_mul x y = round53 (fst x * fst y) (snd x + snd y)"

text \<open>The literal \<^verbatim>\<open>0.001\<close>: the double nearest to 1/1000.\<close>

definition double_0_001 :: double where
  "double_0_001 = (4611686018427388, - 62)"

section \<open>The gateway connection: \<^verbatim>\<open>BotWs\<close> in qg_bot_ws.py\<close>

text \<open>
  What the connection does that the outside can see, in order: frames written to the
  websocket, log records, callbacks started, the heartbeat task started or cancelled.
  A callback is known by the name it was registered under; its argument is the mapping
  that the code hands to \<^verbatim>\<open>objectize\<close>.
\<close>

datatype log_msg =
    HeartbeatAck
  | InvalidSessionFatal
  | Connected
  | RobotId json
  | Resumed
  | UnknownEvent json
  | RobotInfoFailed
  | Disconnected
  | WsStopped
  | Exception py_error

datatype level = Debug | Info | Warn | Err

datatype effect =
    Sent json
  | Log level log_msg
  | StartTask string dict
  | CreateTask string dict
  | OnStart string bool
  | HeartbeatStarted
  | HeartbeatCancelled
  | WsClosed
  | Slept

datatype outcome = Returns | Exits | Raises py_error | ScriptEnded

datatype hb_task = NoTask | Running | Cancelled

record BotWs =
  bot_id :: string
  bot_token :: string
  total_shard :: int
  shard_no :: int
  intents :: int
  on_start_function :: "string option"
  on_msg_function :: "string option"
  on_dm_function :: "string option"
  on_delete_function :: "string option"
  on_forum_function :: "string option"
  on_guild_event_function :: "string option"
  on_channel_event_function :: "string option"
  on_guild_member_function :: "string option"
  on_reaction_function :: "string option"
  on_interaction_function :: "string option"
  on_audit_function :: "string option"
  on_audio_function :: "string option"
  is_filter_self :: bool
  msg_treat :: bool
  dm_treat :: bool
  is_async :: bool
  robot :: "dict option"
  heartbeat_time :: double
  s :: json
  reconnect_times :: int
  re_connect :: bool
  running :: bool
  session_id :: json
  flag :: bool
  heartbeat :: hb_task
  op9_flag :: bool
  ws_closed :: bool
  fetches :: nat
  trace :: "effect list"

text \<open>
  \<open>heartbeat_time\<close> is the heartbeat period in seconds, a double once a hello frame has set
  it; the initial 0 is the pair \<open>(0, 0)\<close>. \<open>fetches\<close> counts the calls of
  \<^verbatim>\<open>self.session.get(.../users/@me)\<close> so far.

  What the code takes from outside the two source files is the record \<open>env\<close>:
  \<^verbatim>\<open>treat_msg\<close> (the tokenizer of \<^verbatim>\<open>_utils\<close>), the text that the f-string gives for
  \<^verbatim>\<open>self.robot.id\<close>, Python's \<^verbatim>\<open>int\<close> on a string and \<^verbatim>\<open>json.loads\<close> (\<open>None\<close> when they
  raise), the decoded body of the \<open>i\<close>-th answer to the identity request, and the number
  of nested calls the interpreter allows.
\<close>

record env =
  treat_msg :: "string \<Rightarrow> json"
  str_of :: "json \<Rightarrow> string"
  int_of_str :: "string \<Rightarrow> int option"
  loads :: "string \<Rightarrow> json option"
  users_me :: "nat \<Rightarrow> dict"
  recursion_limit :: nat

definition emit :: "effect list \<Rightarrow> BotWs \<Rightarrow> BotWs" where
  "emit es b = b\<lparr>trace := trace b @ es\<rparr>"

definition events :: "BotWs \<Rightarrow> (string \<times> string option) list" where
  "events b =
     [(''GUILD_CREATE'', on_guild_event_function b), (''GUILD_UPDATE'', on_guild_event_function b),
      (''GUILD_DELETE'', on_guild_event_function b), (''CHANNEL_CREATE'', on_channel_event_function b),
      (''CHANNEL_UPDATE'', on_channel_event_function b), (''CHANNEL_DELETE'', on_channel_event_function b),
      (''GUILD_MEMBER_ADD'', on_guild_member_function b), (''GUILD_MEMBER_UPDATE'', on_guild_member_function b),
      (''GUILD_MEMBER_REMOVE'', on_guild_member_function b), (''MESSAGE_REACTION_ADD'', on_reaction_function b),
      (''MESSAGE_REACTION_REMOVE'', on_reaction_function b), (''INTERACTION_CREATE'', on_interaction_function b),
      (''MESSAGE_AUDIT_PASS'', on_audit_function b), (''MESSAGE_AUDIT_REJECT'', on_audit_function b),
      (''AUDIO_START'', on_audio_function b), (''AUDIO_FINISH'', on_audio_function b),
      (''AUDIO_ON_MIC'', on_audio_function b), (''AUDIO_OFF_MIC'', on_audio_function b)]"

subsection \<open>Frames sent\<close>

definition token :: "BotWs \<Rightarrow> json" where
  "token b = JStr (''Bot '' @ bot_id b @ ''.'' @ bot_token b)"

definition connect_paras :: "BotWs \<Rightarrow> json" where
  "connect_paras b =
     JDict [(''op'', JInt 2),
            (''d'', JDict [(''token'', token b), (''intents'', JInt (intents b)),
                           (''shard'', JList [JInt (shard_no b), JInt (total_shard b)])])]"

definition reconnect_paras :: "BotWs \<Rightarrow> json" where
  "reconnect_paras b =
     JDict [(''op'', JInt 6),
            (''d'', JDict [(''token'', token b), (''session_id'', session_id b), (''seq'', s b)])]"

definition ws_send :: "json \<Rightarrow> BotWs \<Rightarrow> BotWs" where
  "ws_send msg b = (if \<not> ws_closed b then emit [Sent msg] b else b)"

definition send_connect :: "BotWs \<Rightarrow> BotWs" where
  "send_connect b = ws_send (connect_paras b) b"

definition send_reconnect :: "BotWs \<Rightarrow> BotWs" where
  "send_reconnect b = ws_send (reconnect_paras b) b"

definition start_heartbeat :: "BotWs \<Rightarrow> BotWs" where
  "start_heartbeat b =
     (if heartbeat b \<noteq> Running then emit [HeartbeatStarted] (b\<lparr>heartbeat := Running\<rparr>) else b)"

definition cancel_heartbeat :: "BotWs \<Rightarrow> BotWs" where
  "cancel_heartbeat b =
     (if heartbeat b = Running then emit [HeartbeatCancelled] (b\<lparr>heartbeat := Cancelled\<rparr>) else b)"

subsection \<open>\<^verbatim>\<open>get_robot_info\<close>\<close>

text \<open>
  The first argument is the number of nested calls still allowed: the function calls
  itself, and Python raises \<^verbatim>\<open>RecursionError\<close> when the limit is reached. The inner call
  passes \<^verbatim>\<open>retry\<close> on as it is.
\<close>

fun get_robot_info :: "nat \<Rightarrow> env \<Rightarrow> bool \<Rightarrow> BotWs \<Rightarrow> (outcome + dict) \<times> BotWs" where
  "get_robot_info 0 e retry b = (Inl (Raises RecursionError), b)"
| "get_robot_info (Suc depth) e retry b =
     (let robot_info = users_me e (fetches b);
          b1 = b\<lparr>fetches := Suc (fetches b)\<rparr>
      in if \<not> has_key ''id'' robot_info then
           (if \<not> retry then get_robot_info depth e retry b1
            else (Inl Exits, emit [Log Err RobotInfoFailed] b1))
         else (Inr robot_info, b1))"

subsection \<open>\<^verbatim>\<open>distribute\<close> and \<^verbatim>\<open>data_process\<close>\<close>

text \<open>
  \<^verbatim>\<open>distribute\<close> writes the event type and the event id into the payload \<^verbatim>\<open>data["d"]\<close>
  and starts the callback, if there is one, on \<^verbatim>\<open>objectize(data["d"])\<close>: through
  \<^verbatim>\<open>start_task\<close> when the bot is synchronous, as a task of the loop otherwise.
\<close>

definition distribute :: "BotWs \<Rightarrow> string option \<Rightarrow> dict \<Rightarrow> py_error + effect list" where
  "distribute b function data =
     (case map_of data ''t'' of
        None \<Rightarrow> Inl KeyError
      | Some t \<Rightarrow>
          (case get_d data of
             Inl err \<Rightarrow> Inl err
           | Inr d \<Rightarrow>
               (case map_of data ''id'' of
                  None \<Rightarrow> Inl KeyError
                | Some event_id \<Rightarrow>
                    (let d' = dict_set ''event_id'' event_id (dict_set ''t'' t d)
                     in case function of
                          None \<Rightarrow> Inr []
                        | Some f \<Rightarrow>
                            if \<not> is_async b then Inr [StartTask f d'] else Inr [CreateTask f d']))))"

text \<open>\<^verbatim>\<open>'' if 'content' not in data["d"] else data["d"]["content"].strip()\<close>\<close>

definition raw_msg_of :: "dict \<Rightarrow> py_error + string" where
  "raw_msg_of d =
     (case map_of d ''content'' of
        None \<Rightarrow> Inr []
      | Some (JStr c) \<Rightarrow> Inr (py_strip c)
      | Some _ \<Rightarrow> Inl AttributeError)"

text \<open>The mention token \<^verbatim>\<open>f'<@!{self.robot.id}>'\<close>; \<^verbatim>\<open>self.robot\<close> is \<^verbatim>\<open>None\<close> before READY.\<close>

definition at_of :: "env \<Rightarrow> BotWs \<Rightarrow> py_error + string" where
  "at_of e b =
     (case robot b of
        None \<Rightarrow> Inl AttributeError
      | Some r \<Rightarrow> Inr (''<@!'' @ str_of e (dict_get r ''id'') @ ''>''))"

text \<open>The body of the branch \<^verbatim>\<open>if self.msg_treat\<close>: the envelope with \<^verbatim>\<open>treated_msg\<close> set.\<close>

definition msg_treatment :: "env \<Rightarrow> BotWs \<Rightarrow> dict \<Rightarrow> py_error + dict" where
  "msg_treatment e b data =
     (case get_d data of
        Inl err \<Rightarrow> Inl err
      | Inr d \<Rightarrow>
          (case raw_msg_of d of
             Inl err \<Rightarrow> Inl err
           | Inr raw_msg \<Rightarrow>
               (case at_of e b of
                  Inl err \<Rightarrow> Inl err
                | Inr at' \<Rightarrow>
                    (let treated_msg = (if py_find raw_msg at' \<noteq> 0 then raw_msg
                                        else py_replace_first raw_msg at')
                     in Inr (dict_set ''d''
                               (JDict (dict_set ''treated_msg'' (treat_msg e (py_strip treated_msg)) d))
                               data)))))"

definition dm_treatment :: "env \<Rightarrow> dict \<Rightarrow> py_error + dict" where
  "dm_treatment e data =
     (case get_d data of
        Inl err \<Rightarrow> Inl err
      | Inr d \<Rightarrow>
          (case raw_msg_of d of
             Inl err \<Rightarrow> Inl err
           | Inr raw_msg \<Rightarrow>
               Inr (dict_set ''d'' (JDict (dict_set ''treated_msg'' (treat_msg e raw_msg) d)) data)))"

text \<open>\<^verbatim>\<open>data['d'][k1][k2]['id']\<close>, as the delete branch reads the two user ids.\<close>

definition id_at :: "dict \<Rightarrow> string list \<Rightarrow> py_error + json" where
  "id_at data path =
     foldl (\<lambda>r k. case r of Inl err \<Rightarrow> Inl err | Inr v \<Rightarrow> subscript v k) (Inr (JDict data)) path"

text \<open>
  One round of the loop over \<^verbatim>\<open>("content", "title")\<close> in the forum branch: only
  \<^verbatim>\<open>JSONDecodeError\<close> is caught.
\<close>

definition forum_item :: "env \<Rightarrow> string \<Rightarrow> dict \<Rightarrow> py_error + dict" where
  "forum_item e items data =
     (case get_d data of
        Inl err \<Rightarrow> Inl err
      | Inr d \<Rightarrow>
          (case subscript (JDict d) ''thread_info'' of
             Inl err \<Rightarrow> Inl err
           | Inr (JDict ti) \<Rightarrow>
               (case map_of ti items of
                  None \<Rightarrow> Inl KeyError
                | Some (JStr x) \<Rightarrow>
                    (case loads e x of
                       None \<Rightarrow> Inr data
                     | Some v \<Rightarrow>
                         Inr (dict_set ''d'' (JDict (dict_set ''thread_info'' (JDict (dict_set items v ti)) d)) data))
                | Some _ \<Rightarrow> Inl TypeError)
           | Inr _ \<Rightarrow> Inl TypeError))"

definition delete_types :: "json list" where
  "delete_types = [JStr ''MESSAGE_DELETE'', JStr ''PUBLIC_MESSAGE_DELETE'', JStr ''DIRECT_MESSAGE_DELETE'']"

definition forum_types :: "json list" where
  "forum_types =
     [JStr ''FORUM_THREAD_CREATE'', JStr ''FORUM_THREAD_UPDATE'', JStr ''FORUM_THREAD_DELETE'',
      JStr ''FORUM_POST_CREATE'', JStr ''FORUM_POST_DELETE'', JStr ''FORUM_REPLY_CREATE'',
      JStr ''FORUM_REPLY_DELETE'', JStr ''FORUM_PUBLISH_AUDIT_RESULT'']"

text \<open>The function under its decorator: what it does, or the exception it raises.\<close>

definition data_process_body :: "env \<Rightarrow> BotWs \<Rightarrow> dict \<Rightarrow> py_error + effect list" where
  "data_process_body e b data =
     (case map_of data ''t'' of
        None \<Rightarrow> Inl KeyError
      | Some t \<Rightarrow>
          if t \<in> set [JStr ''AT_MESSAGE_CREATE'', JStr ''MESSAGE_CREATE''] then
            (if msg_treat b then
               (case msg_treatment e b data of
                  Inl err \<Rightarrow> Inl err
                | Inr data' \<Rightarrow> distribute b (on_msg_function b) data')
             else distribute b (on_msg_function b) data)
          else if t \<in> set delete_types then
            (if is_filter_self b then
               (case id_at data [''d'', ''message'', ''author'', ''id''] of
                  Inl err \<Rightarrow> Inl err
                | Inr target \<Rightarrow>
                    (case id_at data [''d'', ''op_user'', ''id''] of
                       Inl err \<Rightarrow> Inl err
                     | Inr op_user \<Rightarrow>
                         if py_eq op_user target then Inr []
                         else distribute b (on_delete_function b) data))
             else distribute b (on_delete_function b) data)
          else if t = JStr ''DIRECT_MESSAGE_CREATE'' then
            (if dm_treat b then
               (case dm_treatment e data of
                  Inl err \<Rightarrow> Inl err
                | Inr data' \<Rightarrow> distribute b (on_dm_function b) data')
             else distribute b (on_dm_function b) data)
          else if t \<in> set forum_types then
            (case forum_item e ''content'' data of
               Inl err \<Rightarrow> Inl err
             | Inr data1 \<Rightarrow>
                 (case forum_item e ''title'' data1 of
                    Inl err \<Rightarrow> Inl err
                  | Inr data2 \<Rightarrow> distribute b (on_forum_function b) data2))
          else
            (case t of
               JStr name \<Rightarrow>
                 (case map_of (events b) name of
                    Some func \<Rightarrow>
                      (case func of None \<Rightarrow> Inr [] | Some f \<Rightarrow> distribute b func data)
                  | None \<Rightarrow> Inr [Log Warn (UnknownEvent t)])
             | JList _ \<Rightarrow> Inl TypeError
             | JDict _ \<Rightarrow> Inl TypeError
             | _ \<Rightarrow> Inr [Log Warn (UnknownEvent t)]))"

text \<open>
  Modelled from the spec: the decorator \<^verbatim>\<open>exception_processor\<close> of \<^verbatim>\<open>_utils\<close>, which is
  not among the sources. The spec has an error raised under it caught at the dispatch
  boundary, logged, and never passed on to the receive loop.
\<close>

definition exception_processor :: "(py_error + effect list) \<Rightarrow> effect list" where
  "exception_processor r = (case r of Inl err \<Rightarrow> [Log Err (Exception err)] | Inr es \<Rightarrow> es)"

definition data_process :: "env \<Rightarrow> BotWs \<Rightarrow> dict \<Rightarrow> effect list" where
  "data_process e b data = exception_processor (data_process_body e b data)"

subsection \<open>\<^verbatim>\<open>main\<close>: one inbound frame\<close>

text \<open>\<^verbatim>\<open>int(x)\<close> on a decoded value.\<close>

definition py_int :: "env \<Rightarrow> json \<Rightarrow> py_error + int" where
  "py_int e x =
     (case x of
        JInt n \<Rightarrow> Inr n
      | JBool b \<Rightarrow> Inr (if b then 1 else 0)
      | JStr str \<Rightarrow> (case int_of_str e str of None \<Rightarrow> Inl ValueError | Some n \<Rightarrow> Inr n)
      | _ \<Rightarrow> Inl TypeError)"

text \<open>
  \<^verbatim>\<open>int(data["d"]["heartbeat_interval"])\<close>, as far as \<^verbatim>\<open>float(... * 0.001)\<close> accepts it:
  the product raises \<^verbatim>\<open>OverflowError\<close> for an integer that no double holds.
\<close>

definition hello_interval :: "env \<Rightarrow> dict \<Rightarrow> py_error + int" where
  "hello_interval e data =
     (case id_at data [''d'', ''heartbeat_interval''] of
        Inl err \<Rightarrow> Inl err
      | Inr x \<Rightarrow>
          (case py_int e x of
             Inl err \<Rightarrow> Inl err
           | Inr n \<Rightarrow> if 2 ^ 1024 - 2 ^ 970 \<le> \<bar>n\<bar> then Inl OverflowError else Inr n))"

text \<open>The two lines that both the invalid-session and the hello branch end with.\<close>

definition handshake :: "BotWs \<Rightarrow> BotWs" where
  "handshake b = (if \<not> re_connect b then send_connect b else send_reconnect b)"

text \<open>The READY branch, after the session id has been read.\<close>

definition on_ready :: "env \<Rightarrow> json \<Rightarrow> BotWs \<Rightarrow> outcome \<times> BotWs" where
  "on_ready e sid b =
     (let b1 = start_heartbeat (b\<lparr>session_id := sid, reconnect_times := 0\<rparr>);
          b2 = emit [Log Info Connected] b1
      in if \<not> flag b2 then
           (case get_robot_info (recursion_limit e) e False (b2\<lparr>flag := True\<rparr>) of
              (Inl out, b3) \<Rightarrow> (out, b3)
            | (Inr robot_info, b3) \<Rightarrow>
                (let b4 = emit [Log Info (RobotId (dict_get robot_info ''id''))]
                               (b3\<lparr>robot := Some robot_info\<rparr>)
                 in (Returns,
                     case on_start_function b4 of
                       None \<Rightarrow> b4
                     | Some f \<Rightarrow> emit [OnStart f (is_async b4)] b4)))
         else (Returns, b2))"

text \<open>
  The argument is the frame after \<^verbatim>\<open>loads\<close>. \<^verbatim>\<open>exit()\<close> is the outcome \<open>Exits\<close>; an
  exception leaves \<^verbatim>\<open>main\<close> as \<open>Raises\<close>.
\<close>

definition main :: "env \<Rightarrow> json \<Rightarrow> BotWs \<Rightarrow> outcome \<times> BotWs" where
  "main e msg b0 =
     (case msg of
        JDict data \<Rightarrow>
          (let op = dict_get data ''op'';
               b = (if has_key ''s'' data then b0\<lparr>s := dict_get data ''s''\<rparr> else b0)
           in if py_eq_int op 11 then (Returns, emit [Log Debug HeartbeatAck] b)
              else if py_eq_int op 9 then
                (if \<not> op9_flag b then (Returns, handshake (b\<lparr>op9_flag := True\<rparr>))
                 else (Exits, emit [Log Err InvalidSessionFatal] b))
              else if py_eq_int op 10 then
                (case hello_interval e data of
                   Inl err \<Rightarrow> (Raises err, b)
                 | Inr n \<Rightarrow>
                     (Returns,
                      handshake (b\<lparr>heartbeat_time := float_mul (float_of_int n) double_0_001\<rparr>)))
              else if py_eq_int op 0 then
                (case map_of data ''t'' of
                   None \<Rightarrow> (Raises KeyError, b)
                 | Some t \<Rightarrow>
                     if t = JStr ''READY'' then
                       (case id_at data [''d'', ''session_id''] of
                          Inl err \<Rightarrow> (Raises err, b)
                        | Inr sid \<Rightarrow> on_ready e sid b)
                     else if t = JStr ''RESUMED'' then
                       (Returns, emit [Log Info Resumed] (start_heartbeat (b\<lparr>reconnect_times := 0\<rparr>)))
                     else (Returns, emit (data_process e b data) b))
              else (Returns, b))
      | _ \<Rightarrow> (Raises AttributeError, b0))"

subsection \<open>\<^verbatim>\<open>connect\<close> and \<^verbatim>\<open>starter\<close>\<close>

text \<open>
  What \<^verbatim>\<open>await self.ws.receive()\<close> returns, one after the other, is a list: a text frame
  with its decoded content (\<open>None\<close> when \<^verbatim>\<open>loads\<close> raises on it), one of the three
  closing types, or a message of another type, which the loop passes over. A list that
  ends leaves the loop waiting for the next message: the outcome \<open>ScriptEnded\<close>.
\<close>

datatype ws_msg = TEXT "json option" | CLOSE | CLOSED | ERROR | BINARY

text \<open>A connection attempt: \<^verbatim>\<open>ws_connect\<close> raises, or the websocket opens.\<close>

datatype connection = Refused py_error | Opened "ws_msg list"

text \<open>The handler \<^verbatim>\<open>except Exception as e\<close> of \<^verbatim>\<open>connect\<close>.\<close>

definition on_exception :: "py_error \<Rightarrow> BotWs \<Rightarrow> BotWs" where
  "on_exception err b =
     emit [Log Err (Exception err), Log Debug (Exception err)]
       (cancel_heartbeat (emit [Log Warn Disconnected] (b\<lparr>ws_closed := True\<rparr>)))"

fun receive_loop :: "env \<Rightarrow> ws_msg list \<Rightarrow> BotWs \<Rightarrow> outcome \<times> BotWs" where
  "receive_loop e [] b = (ScriptEnded, b)"
| "receive_loop e (TEXT data # ms) b =
     (if \<not> running b then
        (Returns, emit [WsClosed, Log Info WsStopped] (cancel_heartbeat b\<lparr>ws_closed := True\<rparr>))
      else
        (case data of
           None \<Rightarrow> (Raises JSONDecodeError, b)
         | Some msg \<Rightarrow>
             (case main e msg b of
                (Returns, b') \<Rightarrow> receive_loop e ms b'
              | r \<Rightarrow> r)))"
| "receive_loop e (BINARY # ms) b = receive_loop e ms b"
| "receive_loop e (_ # ms) b =
     (if running b then
        (Returns, emit [Log Warn Disconnected] (cancel_heartbeat (b\<lparr>re_connect := True, ws_closed := True\<rparr>)))
      else (Returns, b\<lparr>ws_closed := True\<rparr>))"

definition connect :: "env \<Rightarrow> connection \<Rightarrow> BotWs \<Rightarrow> outcome \<times> BotWs" where
  "connect e c b0 =
     (let b = b0\<lparr>reconnect_times := reconnect_times b0 + 1\<rparr>
      in case c of
           Refused err \<Rightarrow> (Returns, on_exception err b)
         | Opened msgs \<Rightarrow>
             (case receive_loop e msgs (b\<lparr>ws_closed := False\<rparr>) of
                (Raises err, b') \<Rightarrow> (Returns, on_exception err b')
              | r \<Rightarrow> r))"

text \<open>
  The loop \<^verbatim>\<open>while self.running\<close> of \<^verbatim>\<open>starter\<close>, one connection attempt of the list per
  round. \<^verbatim>\<open>connect\<close> catches every \<^verbatim>\<open>Exception\<close> itself, so the handler for
  \<^verbatim>\<open>WSServerHandshakeError\<close> here is never entered.
\<close>

fun starter_loop :: "env \<Rightarrow> connection list \<Rightarrow> BotWs \<Rightarrow> outcome \<times> BotWs" where
  "starter_loop e [] b = (if running b then (ScriptEnded, b) else (Returns, b))"
| "starter_loop e (c # cs) b =
     (if running b then
        (case connect e c (b\<lparr>re_connect := (if reconnect_times b \<ge> 20 then False else True)\<rparr>) of
           (Returns, b') \<Rightarrow> starter_loop e cs (emit [Slept] b')
         | r \<Rightarrow> r)
      else (Returns, b))"

definition starter :: "env \<Rightarrow> connection list \<Rightarrow> BotWs \<Rightarrow> outcome \<times> BotWs" where
  "starter e cs b =
     (case cs of
        [] \<Rightarrow> (ScriptEnded, b)
      | c # cs' \<Rightarrow>
          (case connect e c b of
             (Returns, b') \<Rightarrow> starter_loop e cs' b'
           | r \<Rightarrow> r))"

text \<open>
  The fields that \<^verbatim>\<open>__init__\<close> sets to fixed values, over the configuration kept in the
  other fields; \<open>None\<close> is the \<^verbatim>\<open>exit()\<close> of a bot with no intents.
\<close>

definition BotWs_init :: "BotWs \<Rightarrow> BotWs option" where
  "BotWs_init cfg =
     (if intents cfg = 0 then None
      else Some (cfg\<lparr>robot := None, heartbeat_time := (0, 0), s := JNull, reconnect_times := 0,
                     re_connect := False, running := True, session_id := JInt 0, flag := False,
                     heartbeat := NoTask, op9_flag := False, ws_closed := True, fetches := 0,
                     trace := []\<rparr>))"

section \<open>The specification's wording, and concrete inputs\<close>

text \<open>
  The condition of the code under which a first failure with a JSON content type is sent
  again: the decoded body is a dict whose \<^verbatim>\<open>code\<close> is in the collection.
\<close>

definition retryable_body :: "int list \<Rightarrow> json \<Rightarrow> bool" where
  "retryable_body codes j =
     (case j of JDict d \<Rightarrow> py_in_ints (dict_get d ''code'') codes | _ \<Rightarrow> False)"

text \<open>
  The specification's condition for sending a failed call again: the content type is JSON
  and the decoded body has an integer \<^verbatim>\<open>code\<close> in the retryable set.
\<close>

definition spec_retryable :: "int list \<Rightarrow> response \<Rightarrow> bool" where
  "spec_retryable codes resp =
     (content_type resp = ''application/json'' \<and>
      (case json_body resp of
         Some (JDict d) \<Rightarrow>
           (case map_of d ''code'' of Some (JInt c) \<Rightarrow> c \<in> set codes | _ \<Rightarrow> False)
       | _ \<Rightarrow> False))"

text \<open>A first attempt was followed by a second, flagged one.\<close>

definition reissued :: "int list \<Rightarrow> network \<Rightarrow> string \<Rightarrow> string \<Rightarrow> Session \<Rightarrow> bool" where
  "reissued codes net m u st =
     (issued (snd (Session_request codes net m u False st))
        = issued st @ [(m, u, False), (m, u, True)])"

definition session0 :: Session where
  "session0 = \<lparr>is_retry = True, is_log_error = True, issued = [], log = []\<rparr>"

definition resp_html_502 :: response where
  "resp_html_502 = \<lparr>ok = False, status = 502, content_type = ''text/html'', json_body = None\<rparr>"

definition resp_200 :: response where
  "resp_200 = \<lparr>ok = True, status = 200, content_type = ''application/json'',
                 json_body = Some (JDict [(''id'', JStr ''42'')])\<rparr>"

text \<open>A gateway error page first, success on every later call.\<close>

definition net_502_then_200 :: network where
  "net_502_then_200 i = (if i = 0 then Inr resp_html_502 else Inr resp_200)"

definition resp_429 :: response where
  "resp_429 = \<lparr>ok = False, status = 429, content_type = ''application/json'',
                 json_body = Some (JDict [(''code'', JInt 11298)])\<rparr>"

text \<open>Every call fails with status 429 and the code 11298.\<close>

definition net_429 :: network where
  "net_429 i = Inr resp_429"

text \<open>
  A stand-in for the text that Python's formatting gives a value: the string itself.
\<close>

definition json_text :: "json \<Rightarrow> string" where
  "json_text x = (case x of JStr t \<Rightarrow> t | _ \<Rightarrow> [])"

text \<open>The identity request answered twice by an error body, then by the identity.\<close>

definition users_me_third :: "nat \<Rightarrow> dict" where
  "users_me_third i =
     (if i < 2 then [(''code'', JInt 11264), (''message'', JStr ''token error'')]
      else [(''id'', JStr ''42''), (''username'', JStr ''bot'')])"

text \<open>
  An environment: the tokenizer returns its argument as a JSON string, nothing parses as
  an integer or as JSON, and the interpreter allows 1000 nested calls, Python's default.
\<close>

definition env0 :: env where
  "env0 = \<lparr>treat_msg = JStr, str_of = json_text, int_of_str = (\<lambda>x. None), loads = (\<lambda>x. None),
            users_me = users_me_third, recursion_limit = 1000\<rparr>"

text \<open>
  A synchronous bot as \<^verbatim>\<open>__init__\<close> leaves it, with callbacks for messages, direct
  messages and deletions, message treatment and self-filtering on.
\<close>

definition bot0 :: BotWs where
  "bot0 = \<lparr>bot_id = ''101'', bot_token = ''secret'', total_shard = 1, shard_no = 0, intents = 1,
            on_start_function = None, on_msg_function = Some ''on_msg'',
            on_dm_function = Some ''on_dm'', on_delete_function = Some ''on_delete'',
            on_forum_function = None, on_guild_event_function = None,
            on_channel_event_function = None, on_guild_member_function = None,
            on_reaction_function = None, on_interaction_function = None,
            on_audit_function = None, on_audio_function = None,
            is_filter_self = True, msg_treat = True, dm_treat = True, is_async = False,
            robot = None, heartbeat_time = (0, 0), s = JNull, reconnect_times = 0,
            re_connect = False, running = True, session_id = JInt 0, flag = False,
            heartbeat = NoTask, op9_flag = False, ws_closed = True, fetches = 0, trace = []\<rparr>"

text \<open>
  The treated text as the specification words it: the content trimmed, the mention
  stripped when it stands at the start, the tokenizer applied to the result.
\<close>

definition spec_treated :: "env \<Rightarrow> string \<Rightarrow> string \<Rightarrow> json" where
  "spec_treated e at' content =
     (let trimmed = py_strip content
      in treat_msg e (if prefix at' trimmed then drop (length at') trimmed else trimmed))"

text \<open>The bot after READY, its identity resolved with the id 42.\<close>

definition bot_ready :: BotWs where
  "bot_ready = bot0\<lparr>robot := Some [(''id'', JStr ''42''), (''username'', JStr ''bot'')], flag := True\<rparr>"

text \<open>A guild message that mentions the bot and goes on with a command.\<close>

definition create_event0 :: dict where
  "create_event0 =
     [(''op'', JInt 0), (''s'', JInt 8), (''t'', JStr ''AT_MESSAGE_CREATE''), (''id'', JStr ''e2''),
      (''d'', JDict [(''content'', JStr ''<@!42> /help'')])]"

text \<open>A message of user 7 deleted by user 9.\<close>

definition delete_event0 :: dict where
  "delete_event0 =
     [(''op'', JInt 0), (''s'', JInt 7), (''t'', JStr ''MESSAGE_DELETE''), (''id'', JStr ''e1''),
      (''d'', JDict [(''message'', JDict [(''author'', JDict [(''id'', JStr ''7'')])]),
                     (''op_user'', JDict [(''id'', JStr ''9'')])])]"

text \<open>
  What the specification says the delete callback gets when the two ids differ: the
  envelope.
\<close>

definition spec_delete_effects :: "BotWs \<Rightarrow> dict \<Rightarrow> json \<Rightarrow> json \<Rightarrow> string \<Rightarrow> effect list" where
  "spec_delete_effects b data op_user target f =
     (if py_eq op_user target then []
      else [(if is_async b then CreateTask else StartTask) f data])"

text \<open>
  The order on stored sequence values that the specification's invariant speaks of:
  \<^verbatim>\<open>None\<close>, the value before the first event, is below everything.
\<close>

fun seq_le :: "json \<Rightarrow> json \<Rightarrow> bool" where
  "seq_le JNull y = True"
| "seq_le (JInt a) (JInt b) = (a \<le> b)"
| "seq_le x y = False"

text \<open>
  A frame is a READY dispatch that carries a session id, or a RESUMED dispatch.
\<close>

definition ready_or_resumed :: "json \<Rightarrow> bool" where
  "ready_or_resumed msg =
     (case msg of
        JDict data \<Rightarrow>
          py_eq_int (dict_get data ''op'') 0 \<and>
          (map_of data ''t'' = Some (JStr ''READY'')
             \<and> (case id_at data [''d'', ''session_id''] of Inr sid \<Rightarrow> True | Inl err \<Rightarrow> False)
           \<or> map_of data ''t'' = Some (JStr ''RESUMED''))
      | _ \<Rightarrow> False)"

definition hello0 :: dict where
  "hello0 = [(''op'', JInt 10), (''d'', JDict [(''heartbeat_interval'', JInt 41250)])]"

definition invalid_session0 :: dict where
  "invalid_session0 = [(''op'', JInt 9), (''d'', JBool False)]"

definition resumed_seq3 :: dict where
  "resumed_seq3 = [(''op'', JInt 0), (''s'', JInt 3), (''t'', JStr ''RESUMED''), (''d'', JStr [])]"

text \<open>A bot whose last stored sequence number is 5.\<close>

definition bot_seq5 :: BotWs where
  "bot_seq5 = bot0\<lparr>s := JInt 5\<rparr>"

text \<open>A bot that has made 20 connection attempts since it was last ready.\<close>

definition bot_20 :: BotWs where
  "bot_20 = bot0\<lparr>reconnect_times := 20, re_connect := True\<rparr>"

text \<open>
  Two connection attempts. In the first the gateway says hello, sends one invalid-session
  frame and closes; in the second it says hello and sends one invalid-session frame.
\<close>

definition two_attempts :: "connection list" where
  "two_attempts =
     [Opened [TEXT (Some (JDict hello0)), TEXT (Some (JDict invalid_session0)), CLOSED],
      Opened [TEXT (Some (JDict hello0)), TEXT (Some (JDict invalid_session0))]]"

text \<open>
  The heartbeat period as the specification has it for an interval of \<open>I\<close> milliseconds:
  the number \<open>I / 1000\<close>.
\<close>

definition spec_period :: "int \<Rightarrow> rat" where
  "spec_period I = of_int I / 1000"

text \<open>A hello frame with an interval of 9 milliseconds.\<close>

definition hello_9 :: dict where
  "hello_9 = [(''op'', JInt 10), (''d'', JDict [(''heartbeat_interval'', JInt 9)])]"

section \<open>The retry policy of \<^verbatim>\<open>_request\<close>\<close>

lemma request_flagged:
  "Session_request codes net m u True st =
     (net (length (issued st)),
      case net (length (issued st)) of
        Inl e \<Rightarrow> st\<lparr>issued := issued st @ [(m, u, True)]\<rparr>
      | Inr resp \<Rightarrow>
          if ok resp \<or> \<not> is_log_error st then st\<lparr>issued := issued st @ [(m, u, True)]\<rparr>
          else Session_warning u resp (st\<lparr>issued := issued st @ [(m, u, True)]\<rparr>))"
  by (subst Session_request.simps) (auto simp: Let_def Session_warning_def split: sum.splits)

lemma issued_flagged:
  "issued (snd (Session_request codes net m u True st)) = issued st @ [(m, u, True)]"
  by (auto simp: request_flagged Session_warning_def split: sum.splits)

lemma fst_flagged:
  "fst (Session_request codes net m u True st) = net (length (issued st))"
  by (simp add: request_flagged)

lemma request_first:
  assumes "is_retry st" and "net (length (issued st)) = Inr resp" and "\<not> ok resp"
  shows "Session_request codes net m u False st =
     (let st1 = st\<lparr>issued := issued st @ [(m, u, False)]\<rparr> in
      if content_type resp = ''application/json'' then
        (case json_body resp of
           None \<Rightarrow> (Inl JSONDecodeError, st1)
         | Some j \<Rightarrow>
             if retryable_body codes j then Session_request codes net m u True st1
             else (Inr resp, Session_warning u resp st1))
      else Session_request codes net m u True st1)"
  using assms
  by (subst Session_request.simps)
     (auto simp: Let_def retryable_body_def split: option.splits json.splits)

text \<open>
  C1, as the code has it. With retry enabled, a first attempt that fails is sent again once,
  and the caller gets the outcome of that second call, in every case but one: when the
  content type is \<^verbatim>\<open>application/json\<close> and the decoded body is not a dict or has no
  \<^verbatim>\<open>code\<close> in the retryable collection, the warning is logged, the response is returned
  and nothing is sent again. A failure with any other content type is sent again. (A body
  that does not decode raises out of the call.)
\<close>

theorem first_failure_reissued_unless_json_not_retryable:
  assumes "is_retry st" and "net (length (issued st)) = Inr resp" and "\<not> ok resp"
  shows "(let r = Session_request codes net m u False st;
              again = (issued (snd r) = issued st @ [(m, u, False), (m, u, True)]
                       \<and> fst r = net (Suc (length (issued st))))
          in if content_type resp = ''application/json'' then
               (case json_body resp of
                  None \<Rightarrow> fst r = Inl JSONDecodeError \<and> issued (snd r) = issued st @ [(m, u, False)]
                | Some j \<Rightarrow>
                    if retryable_body codes j then again
                    else fst r = Inr resp \<and> issued (snd r) = issued st @ [(m, u, False)]
                         \<and> log (snd r) = log st @ [Warning u resp])
             else again)"
  unfolding request_first [of st net resp codes m u, OF assms]
  by (auto simp: Let_def issued_flagged fst_flagged Session_warning_def split: option.splits)

theorem first_failure_reissued_witness:
  "(let r = Session_request [11298] net_429 ''get'' ''/users/@me'' False session0
    in issued (snd r) = [(''get'', ''/users/@me'', False), (''get'', ''/users/@me'', True)]
       \<and> fst r = Inr resp_429)"
proof -
  have a: "is_retry session0" by (simp add: session0_def)
  have b: "net_429 (length (issued session0)) = Inr resp_429" by (simp add: net_429_def)
  have c: "\<not> ok resp_429" by (simp add: resp_429_def)
  have d: "retryable_body [11298] (JDict [(''code'', JInt 11298)])"
    by (simp add: retryable_body_def py_in_ints_def dict_get_def)
  show ?thesis
    using first_failure_reissued_unless_json_not_retryable
            [of session0 net_429 resp_429 "[11298]" "''get''" "''/users/@me''", OF a b c] d
    by (simp add: Let_def resp_429_def session0_def net_429_def)
qed

text \<open>
  C1 as the specification words it fails: a first attempt answered by an HTML error page
  (status 502) is not retryable in the specification's sense, yet the call is sent again,
  no warning is logged, and what the caller gets is the second response, not the first.
\<close>

theorem non_json_failure_is_reissued:
  "\<not> ok resp_html_502
   \<and> \<not> spec_retryable [11298] resp_html_502
   \<and> reissued [11298] net_502_then_200 ''get'' ''/users/@me'' session0
   \<and> Session_request [11298] net_502_then_200 ''get'' ''/users/@me'' False session0
       = (Inr resp_200,
          session0\<lparr>issued := [(''get'', ''/users/@me'', False), (''get'', ''/users/@me'', True)]\<rparr>)"
  unfolding reissued_def
  apply (subst (1 2) Session_request.simps)
  apply (simp add: Let_def request_flagged spec_retryable_def resp_html_502_def resp_200_def
                   net_502_then_200_def session0_def)
  done

text \<open>
  C4. A call made with the retry flag set sends exactly one request and returns its outcome,
  whatever it is; so a call made without the flag sends one request or two, never more, and
  a second failure goes back to the caller as it came.
\<close>

theorem retry_attempt_never_reissues:
  "fst (Session_request codes net m u True st) = net (length (issued st))
   \<and> issued (snd (Session_request codes net m u True st)) = issued st @ [(m, u, True)]
   \<and> (issued (snd (Session_request codes net m u False st)) = issued st @ [(m, u, False)]
      \<or> issued (snd (Session_request codes net m u False st))
          = issued st @ [(m, u, False), (m, u, True)])"
proof -
  have "issued (snd (Session_request codes net m u False st)) = issued st @ [(m, u, False)]
      \<or> issued (snd (Session_request codes net m u False st))
          = issued st @ [(m, u, False), (m, u, True)]"
    by (subst (1 2) Session_request.simps)
       (auto simp: Let_def Session_warning_def issued_flagged split: sum.splits option.splits)
  with fst_flagged issued_flagged show ?thesis by blast
qed

theorem retry_attempt_never_reissues_witness:
  "fst (Session_request [11298] net_429 ''get'' ''/users/@me'' True
          (session0\<lparr>issued := [(''get'', ''/users/@me'', False)]\<rparr>)) = Inr resp_429
   \<and> issued (snd (Session_request [11298] net_429 ''get'' ''/users/@me'' True
          (session0\<lparr>issued := [(''get'', ''/users/@me'', False)]\<rparr>)))
       = [(''get'', ''/users/@me'', False), (''get'', ''/users/@me'', True)]"
  using retry_attempt_never_reissues
          [of "[11298]" net_429 "''get''" "''/users/@me''"
              "session0\<lparr>issued := [(''get'', ''/users/@me'', False)]\<rparr>"]
  by (simp add: net_429_def)

section \<open>Attribute lookup on the session and the verb calls\<close>

lemma getattr_other_is_None:
  "item \<notin> {''get'', ''post'', ''delete'', ''patch'', ''put''} \<Longrightarrow> Session_getattr item = PyNone"
  by (simp add: Session_getattr_def)

lemma getattr_verb_is_wrap:
  "item \<in> {''get'', ''post'', ''delete'', ''patch'', ''put''} \<Longrightarrow> Session_getattr item = Wrap item"
  by (simp add: Session_getattr_def)

lemma wrap_logs_and_returns_None:
  "wrap item (url # rest) (Inl e) st = (Inr None, st\<lparr>log := log st @ [Error (Some url) e]\<rparr>)"
  by (simp add: wrap_def)

text \<open>
  C10 at the input where the code leaves it: a verb called with no positional argument
  (the URL given by keyword, or left out) whose submission raises. The handler itself
  raises \<^verbatim>\<open>IndexError\<close> on \<^verbatim>\<open>args[0]\<close>: nothing is logged, \<^verbatim>\<open>None\<close> is not returned,
  and the exception reaches the caller.
\<close>

theorem wrap_without_positional_argument_raises:
  "wrap ''get'' [] (Inl TypeError :: py_error + nat) session0 = (Inl IndexError, session0)"
  by (simp add: wrap_def)

theorem wrap_without_positional_argument_witness:
  "fst (wrap ''get'' [] (Inl TypeError :: py_error + nat) session0) = Inl IndexError
   \<and> log (snd (wrap ''get'' [] (Inl TypeError :: py_error + nat) session0)) = []"
  using wrap_without_positional_argument_raises by (simp add: session0_def)

section \<open>Resolving the bot's identity\<close>

lemma bot0_is_initial: "BotWs_init bot0 = Some bot0"
  by (simp add: BotWs_init_def bot0_def)

lemma get_robot_info_never_exits:
  "fst (get_robot_info depth e False b) \<noteq> Inl Exits"
  by (induction depth arbitrary: b) (auto simp: Let_def)

lemma get_robot_info_keeps_calling:
  assumes "\<forall>i. \<not> has_key ''id'' (users_me e i)"
  shows "get_robot_info depth e False b
           = (Inl (Raises RecursionError), b\<lparr>fetches := fetches b + depth\<rparr>)"
  using assms
  by (induction depth arbitrary: b) (auto simp: Let_def)

lemma get_robot_info_nth:
  assumes "\<forall>i < n. \<not> has_key ''id'' (users_me e (fetches b + i))"
    and "has_key ''id'' (users_me e (fetches b + n))" and "n < depth"
  shows "get_robot_info depth e False b
           = (Inr (users_me e (fetches b + n)), b\<lparr>fetches := fetches b + n + 1\<rparr>)"
  using assms
proof (induction depth arbitrary: b n)
  case 0
  then show ?case by simp
next
  case (Suc depth)
  show ?case
  proof (cases n)
    case 0
    with Suc.prems show ?thesis by (simp add: Let_def)
  next
    case (Suc k)
    with Suc.prems have a: "\<not> has_key ''id'' (users_me e (fetches b))"
      by (metis add.right_neutral zero_less_Suc)
    have b: "\<forall>i<k. \<not> has_key ''id'' (users_me e (fetches (b\<lparr>fetches := Suc (fetches b)\<rparr>) + i))"
      using Suc.prems(1) Suc by (auto dest: spec [where x = "Suc _"])
    have c: "has_key ''id'' (users_me e (fetches (b\<lparr>fetches := Suc (fetches b)\<rparr>) + k))"
      using Suc.prems(2) Suc by simp
    have d: "k < depth" using Suc.prems(3) Suc by simp
    from Suc.IH [OF b c d] a Suc show ?thesis by (simp add: Let_def)
  qed
qed

text \<open>
  C2 at an input where the code leaves it: the identity request is answered twice without
  an \<^verbatim>\<open>id\<close> and then with one. The inner call passes \<^verbatim>\<open>retry\<close> on unchanged, that is
  \<^verbatim>\<open>False\<close>, so a second answer without \<^verbatim>\<open>id\<close> brings a third request instead of the
  error and the exit: three requests are made and the identity of the third is returned.
\<close>

theorem get_robot_info_third_attempt:
  "get_robot_info (recursion_limit env0) env0 False bot0
     = (Inr [(''id'', JStr ''42''), (''username'', JStr ''bot'')], bot0\<lparr>fetches := 3\<rparr>)"
  by (simp add: env0_def users_me_third_def has_key_def Let_def numeral_eq_Suc bot0_def)

theorem get_robot_info_third_attempt_witness:
  "fetches (snd (get_robot_info (recursion_limit env0) env0 False bot0)) = 3
   \<and> fst (get_robot_info (recursion_limit env0) env0 False bot0) \<noteq> Inl Exits"
  using get_robot_info_third_attempt by simp

section \<open>The dispatcher: \<^verbatim>\<open>data_process\<close>\<close>

lemma py_find_nonneg_or_minus1: "py_find x sub = - 1 \<or> 0 \<le> py_find x sub"
  by (induction x) (auto simp: Let_def)

lemma py_find_zero_iff: "py_find x sub = 0 \<longleftrightarrow> prefix sub x"
proof (cases x)
  case Nil
  then show ?thesis by auto
next
  case (Cons c t)
  have "py_find t sub = - 1 \<or> 0 \<le> py_find t sub" by (rule py_find_nonneg_or_minus1)
  with Cons show ?thesis by (auto simp: Let_def)
qed

lemma py_replace_first_prefix: "prefix sub x \<Longrightarrow> py_replace_first x sub = drop (length sub) x"
  by (cases x) auto

lemma map_of_dict_set_same [simp]: "map_of (dict_set k v d) k = Some v"
  by (induction d) auto

lemma map_of_dict_set_other [simp]: "k' \<noteq> k \<Longrightarrow> map_of (dict_set k v d) k' = map_of d k'"
  by (induction d) auto

lemma get_d_dict_set [simp]: "get_d (dict_set ''d'' (JDict d') data) = Inr d'"
  by (simp add: get_d_def)

lemma py_strip_Nil [simp]: "py_strip [] = []"
  by (simp add: py_strip_def)

text \<open>
  C5, as the code has it. For a message-delete event with self-filtering on, whose payload
  carries the author's id and the operating user's id, on a bot with a delete callback:
  nothing is done (no callback, no log record) if and only if the two ids are equal;
  otherwise the callback is started once, on the payload \<^verbatim>\<open>d\<close> of the envelope with the
  event type added under \<^verbatim>\<open>t\<close> and the envelope's id under \<^verbatim>\<open>event_id\<close>.
\<close>

theorem delete_dispatch_payload:
  assumes "map_of data ''t'' = Some t" and "t \<in> set delete_types"
    and "is_filter_self b"
    and "id_at data [''d'', ''message'', ''author'', ''id''] = Inr target"
    and "id_at data [''d'', ''op_user'', ''id''] = Inr op_user"
    and "get_d data = Inr d"
    and "map_of data ''id'' = Some event_id"
    and "on_delete_function b = Some f"
  shows "data_process_body e b data =
           Inr (if py_eq op_user target then []
                else [(if is_async b then CreateTask else StartTask) f
                        (dict_set ''event_id'' event_id (dict_set ''t'' t d))])"
  using assms
  by (auto simp: data_process_body_def distribute_def delete_types_def Let_def)

theorem delete_dispatch_payload_witness:
  "data_process_body env0 bot0 delete_event0 =
     Inr [StartTask ''on_delete''
            [(''message'', JDict [(''author'', JDict [(''id'', JStr ''7'')])]),
             (''op_user'', JDict [(''id'', JStr ''9'')]),
             (''t'', JStr ''MESSAGE_DELETE''), (''event_id'', JStr ''e1'')]]"
proof -
  have "map_of delete_event0 ''t'' = Some (JStr ''MESSAGE_DELETE'')"
    and "JStr ''MESSAGE_DELETE'' \<in> set delete_types"
    and "is_filter_self bot0"
    and "id_at delete_event0 [''d'', ''message'', ''author'', ''id''] = Inr (JStr ''7'')"
    and "id_at delete_event0 [''d'', ''op_user'', ''id''] = Inr (JStr ''9'')"
    and "get_d delete_event0 = Inr [(''message'', JDict [(''author'', JDict [(''id'', JStr ''7'')])]),
                                    (''op_user'', JDict [(''id'', JStr ''9'')])]"
    and "map_of delete_event0 ''id'' = Some (JStr ''e1'')"
    and "on_delete_function bot0 = Some ''on_delete''"
    by (simp_all add: delete_event0_def delete_types_def bot0_def id_at_def get_d_def)
  from delete_dispatch_payload [OF this, of env0] show ?thesis
    by (simp add: bot0_def)
qed

text \<open>
  C5 as the specification words it fails: when user 9 deletes a message of user 7, what
  the delete callback is started on is not the envelope. It has the keys of the payload
  and \<^verbatim>\<open>t\<close> and \<^verbatim>\<open>event_id\<close>; the envelope's \<^verbatim>\<open>op\<close>, \<^verbatim>\<open>s\<close> and \<^verbatim>\<open>d\<close> are not in it.
\<close>

theorem delete_callback_does_not_get_envelope:
  "data_process_body env0 bot0 delete_event0
     \<noteq> Inr (spec_delete_effects bot0 delete_event0 (JStr ''9'') (JStr ''7'') ''on_delete'')"
  by (simp add: data_process_body_def distribute_def delete_types_def Let_def delete_event0_def
        bot0_def id_at_def get_d_def spec_delete_effects_def)

text \<open>
  C8, as the code has it. For a guild message-create event with message treatment on, on
  a bot that knows its identity: the content is trimmed (a payload with no content counts
  as the empty string), the bot's mention is removed when the trimmed content starts with
  it and left where it is otherwise, what remains is trimmed once more, and the tokenizer
  is applied to that; the result is stored in the payload under \<^verbatim>\<open>treated_msg\<close>, and
  the message callback is started on the payload.
\<close>

theorem message_create_treated_text:
  assumes "map_of data ''t'' = Some t"
    and "t \<in> set [JStr ''AT_MESSAGE_CREATE'', JStr ''MESSAGE_CREATE'']"
    and "msg_treat b"
    and "get_d data = Inr d"
    and "map_of d ''content'' = map_option JStr content"
    and "robot b = Some r"
    and "map_of data ''id'' = Some event_id"
    and "on_msg_function b = Some f"
  shows "data_process_body e b data =
           Inr [(if is_async b then CreateTask else StartTask) f
                  (dict_set ''event_id'' event_id (dict_set ''t'' t
                     (dict_set ''treated_msg''
                        (let raw_msg = py_strip (case content of None \<Rightarrow> [] | Some c \<Rightarrow> c);
                             at' = ''<@!'' @ str_of e (dict_get r ''id'') @ ''>''
                         in treat_msg e (py_strip (if prefix at' raw_msg then drop (length at') raw_msg
                                                   else raw_msg)))
                        d)))]"
  using assms
  by (cases content)
     (auto simp: data_process_body_def msg_treatment_def distribute_def Let_def raw_msg_of_def
                 at_of_def py_find_zero_iff py_replace_first_prefix)

theorem message_create_treated_text_witness:
  "data_process_body env0 bot_ready create_event0 =
     Inr [StartTask ''on_msg''
            [(''content'', JStr ''<@!42> /help''), (''treated_msg'', JStr ''/help''),
             (''t'', JStr ''AT_MESSAGE_CREATE''), (''event_id'', JStr ''e2'')]]"
proof -
  have "map_of create_event0 ''t'' = Some (JStr ''AT_MESSAGE_CREATE'')"
    and "JStr ''AT_MESSAGE_CREATE'' \<in> set [JStr ''AT_MESSAGE_CREATE'', JStr ''MESSAGE_CREATE'']"
    and "msg_treat bot_ready"
    and "get_d create_event0 = Inr [(''content'', JStr ''<@!42> /help'')]"
    and "map_of [(''content'', JStr ''<@!42> /help'')] ''content''
           = map_option JStr (Some ''<@!42> /help'')"
    and "robot bot_ready = Some [(''id'', JStr ''42''), (''username'', JStr ''bot'')]"
    and "map_of create_event0 ''id'' = Some (JStr ''e2'')"
    and "on_msg_function bot_ready = Some ''on_msg''"
    by (simp_all add: create_event0_def bot_ready_def bot0_def get_d_def)
  from message_create_treated_text [OF this, of env0] show ?thesis
    by (simp add: bot_ready_def bot0_def env0_def json_text_def dict_get_def py_strip_def
          is_space_def Let_def)
qed

text \<open>
  C8 as the specification words it fails: for the content \<^verbatim>\<open><@!42> /help\<close> the code
  hands the tokenizer \<^verbatim>\<open>/help\<close>, since it trims again after the mention is gone; the
  three steps of the specification hand it the text with the blank still in front.
\<close>

theorem treated_text_trimmed_again:
  "data_process_body env0 bot_ready create_event0 =
     Inr [StartTask ''on_msg''
            [(''content'', JStr ''<@!42> /help''), (''treated_msg'', JStr ''/help''),
             (''t'', JStr ''AT_MESSAGE_CREATE''), (''event_id'', JStr ''e2'')]]
   \<and> spec_treated env0 ''<@!42>'' ''<@!42> /help'' = JStr '' /help''"
  by (simp add: data_process_body_def msg_treatment_def distribute_def Let_def raw_msg_of_def
        at_of_def create_event0_def bot_ready_def bot0_def env0_def json_text_def dict_get_def
        get_d_def py_strip_def is_space_def spec_treated_def)

section \<open>The receive loop: what a frame changes\<close>

lemma emit_fields [simp]:
  "s (emit es b) = s b" "op9_flag (emit es b) = op9_flag b"
  "reconnect_times (emit es b) = reconnect_times b" "re_connect (emit es b) = re_connect b"
  "running (emit es b) = running b" "ws_closed (emit es b) = ws_closed b"
  "trace (emit es b) = trace b @ es" "flag (emit es b) = flag b"
  "fetches (emit es b) = fetches b" "on_start_function (emit es b) = on_start_function b"
  "is_async (emit es b) = is_async b"
  by (simp_all add: emit_def)

lemma start_heartbeat_fields [simp]:
  "s (start_heartbeat b) = s b" "op9_flag (start_heartbeat b) = op9_flag b"
  "reconnect_times (start_heartbeat b) = reconnect_times b"
  "re_connect (start_heartbeat b) = re_connect b" "running (start_heartbeat b) = running b"
  "flag (start_heartbeat b) = flag b"
  by (simp_all add: start_heartbeat_def)

lemma cancel_heartbeat_fields [simp]:
  "s (cancel_heartbeat b) = s b" "op9_flag (cancel_heartbeat b) = op9_flag b"
  "reconnect_times (cancel_heartbeat b) = reconnect_times b"
  "re_connect (cancel_heartbeat b) = re_connect b" "running (cancel_heartbeat b) = running b"
  by (simp_all add: cancel_heartbeat_def)

lemma handshake_fields [simp]:
  "s (handshake b) = s b" "op9_flag (handshake b) = op9_flag b"
  "reconnect_times (handshake b) = reconnect_times b" "re_connect (handshake b) = re_connect b"
  "running (handshake b) = running b"
  by (simp_all add: handshake_def send_connect_def send_reconnect_def ws_send_def)

lemma get_robot_info_s [simp]:
  "s (snd (get_robot_info depth e retry b)) = s b"
proof (induction depth arbitrary: b)
  case 0
  show ?case by simp
next
  case (Suc depth)
  show ?case
    using Suc [of "b\<lparr>fetches := Suc (fetches b)\<rparr>"]
    by (cases retry) (simp_all add: Let_def)
qed

lemma get_robot_info_op9_flag [simp]:
  "op9_flag (snd (get_robot_info depth e retry b)) = op9_flag b"
proof (induction depth arbitrary: b)
  case 0
  show ?case by simp
next
  case (Suc depth)
  show ?case
    using Suc [of "b\<lparr>fetches := Suc (fetches b)\<rparr>"]
    by (cases retry) (simp_all add: Let_def)
qed

lemma get_robot_info_reconnect_times [simp]:
  "reconnect_times (snd (get_robot_info depth e retry b)) = reconnect_times b"
proof (induction depth arbitrary: b)
  case 0
  show ?case by simp
next
  case (Suc depth)
  show ?case
    using Suc [of "b\<lparr>fetches := Suc (fetches b)\<rparr>"]
    by (cases retry) (simp_all add: Let_def)
qed

lemma get_robot_info_re_connect [simp]:
  "re_connect (snd (get_robot_info depth e retry b)) = re_connect b"
proof (induction depth arbitrary: b)
  case 0
  show ?case by simp
next
  case (Suc depth)
  show ?case
    using Suc [of "b\<lparr>fetches := Suc (fetches b)\<rparr>"]
    by (cases retry) (simp_all add: Let_def)
qed

lemma get_robot_info_running [simp]:
  "running (snd (get_robot_info depth e retry b)) = running b"
proof (induction depth arbitrary: b)
  case 0
  show ?case by simp
next
  case (Suc depth)
  show ?case
    using Suc [of "b\<lparr>fetches := Suc (fetches b)\<rparr>"]
    by (cases retry) (simp_all add: Let_def)
qed

lemma on_ready_fields [simp]:
  "s (snd (on_ready e sid b)) = s b"
  "op9_flag (snd (on_ready e sid b)) = op9_flag b"
  "reconnect_times (snd (on_ready e sid b)) = 0"
  "re_connect (snd (on_ready e sid b)) = re_connect b"
  "running (snd (on_ready e sid b)) = running b"
proof -
  define b2 where "b2 = emit [Log Info Connected] (start_heartbeat (b\<lparr>session_id := sid, reconnect_times := 0\<rparr>))"
  define g where "g = get_robot_info (recursion_limit e) e False (b2\<lparr>flag := True\<rparr>)"
  have b2: "s b2 = s b" "op9_flag b2 = op9_flag b" "reconnect_times b2 = 0"
    "re_connect b2 = re_connect b" "running b2 = running b"
    by (simp_all add: b2_def)
  have g: "s (snd g) = s b" "op9_flag (snd g) = op9_flag b" "reconnect_times (snd g) = 0"
    "re_connect (snd g) = re_connect b" "running (snd g) = running b"
    by (simp_all add: g_def b2)
  have unfold: "on_ready e sid b =
     (if \<not> flag b2 then
        (case g of
           (Inl out, b3) \<Rightarrow> (out, b3)
         | (Inr robot_info, b3) \<Rightarrow>
             (let b4 = emit [Log Info (RobotId (dict_get robot_info ''id''))] (b3\<lparr>robot := Some robot_info\<rparr>)
              in (Returns, case on_start_function b4 of None \<Rightarrow> b4
                           | Some f \<Rightarrow> emit [OnStart f (is_async b4)] b4)))
      else (Returns, b2))"
    by (simp add: on_ready_def b2_def g_def Let_def)
  obtain r b3 where gr: "g = (r, b3)" by (cases g)
  with g have b3: "s b3 = s b" "op9_flag b3 = op9_flag b" "reconnect_times b3 = 0"
    "re_connect b3 = re_connect b" "running b3 = running b"
    by simp_all
  show "s (snd (on_ready e sid b)) = s b"
    unfolding unfold gr using b2 b3 by (cases r) (simp_all add: Let_def split: option.splits)
  show "op9_flag (snd (on_ready e sid b)) = op9_flag b"
    unfolding unfold gr using b2 b3 by (cases r) (simp_all add: Let_def split: option.splits)
  show "reconnect_times (snd (on_ready e sid b)) = 0"
    unfolding unfold gr using b2 b3 by (cases r) (simp_all add: Let_def split: option.splits)
  show "re_connect (snd (on_ready e sid b)) = re_connect b"
    unfolding unfold gr using b2 b3 by (cases r) (simp_all add: Let_def split: option.splits)
  show "running (snd (on_ready e sid b)) = running b"
    unfolding unfold gr using b2 b3 by (cases r) (simp_all add: Let_def split: option.splits)
qed

lemma main_s:
  "s (snd (main e (JDict data) b)) = (if has_key ''s'' data then dict_get data ''s'' else s b)"
  by (simp add: main_def Let_def split: option.splits sum.splits)

lemma main_op9_flag: "op9_flag b \<Longrightarrow> op9_flag (snd (main e msg b))"
  by (cases msg) (simp_all add: main_def Let_def split: option.splits sum.splits)

lemma py_eq_int_unique: "py_eq_int x m \<Longrightarrow> py_eq_int x n \<Longrightarrow> m = n"
  by (cases x) (auto split: if_splits)

lemma op_9 [simp]:
  "py_eq_int x 9 \<Longrightarrow> \<not> py_eq_int x 11"
  by (auto dest: py_eq_int_unique)

lemma op_10 [simp]:
  "py_eq_int x 10 \<Longrightarrow> \<not> py_eq_int x 11" "py_eq_int x 10 \<Longrightarrow> \<not> py_eq_int x 9"
  by (auto dest: py_eq_int_unique)

lemma op_0 [simp]:
  "py_eq_int x 0 \<Longrightarrow> \<not> py_eq_int x 11" "py_eq_int x 0 \<Longrightarrow> \<not> py_eq_int x 9"
  "py_eq_int x 0 \<Longrightarrow> \<not> py_eq_int x 10"
  by (auto dest: py_eq_int_unique)

lemma main_reconnect_times:
  "reconnect_times (snd (main e msg b)) = (if ready_or_resumed msg then 0 else reconnect_times b)"
  by (cases msg)
     (auto simp: main_def ready_or_resumed_def Let_def split: option.splits sum.splits)

lemma main_invalid_session:
  assumes "py_eq_int (dict_get data ''op'') 9"
  shows "(let r = main e (JDict data) b in
          if op9_flag b then fst r = Exits \<and> trace (snd r) = trace b @ [Log Err InvalidSessionFatal]
          else fst r = Returns \<and> op9_flag (snd r) \<and>
               trace (snd r) = trace b @
                 (if ws_closed b then []
                  else [Sent (if re_connect b then reconnect_paras (snd r) else connect_paras b)]))"
  using assms
  by (auto simp: main_def Let_def handshake_def send_connect_def send_reconnect_def ws_send_def
                 emit_def reconnect_paras_def connect_paras_def token_def)

lemma on_exception_op9_flag [simp]: "op9_flag (on_exception err b) = op9_flag b"
  by (simp add: on_exception_def)

lemma receive_loop_op9_flag: "op9_flag b \<Longrightarrow> op9_flag (snd (receive_loop e ms b))"
proof (induction e ms b rule: receive_loop.induct)
  case (2 e data ms b)
  show ?case
  proof (cases "running b")
    case False
    with "2.prems" show ?thesis by simp
  next
    case True
    show ?thesis
    proof (cases data)
      case None
      with True "2.prems" show ?thesis by simp
    next
      case (Some msg)
      obtain r b' where m: "main e msg b = (r, b')" by (cases "main e msg b")
      with main_op9_flag [OF "2.prems", of e msg] have f: "op9_flag b'" by simp
      show ?thesis
      proof (cases r)
        case Returns
        have "op9_flag (snd (receive_loop e ms b'))"
          using "2.IH" [of msg r b'] True Some m Returns f by simp
        with True Some m Returns show ?thesis by simp
      qed (use True Some m f in simp_all)
    qed
  qed
qed simp_all

lemma connect_op9_flag: "op9_flag b \<Longrightarrow> op9_flag (snd (connect e c b))"
proof (cases c)
  case (Refused err)
  assume "op9_flag b"
  with Refused show ?thesis by (simp add: connect_def Let_def)
next
  case (Opened msgs)
  assume a: "op9_flag b"
  define b1 where "b1 = b\<lparr>reconnect_times := reconnect_times b + 1, ws_closed := False\<rparr>"
  have "op9_flag b1" using a by (simp add: b1_def)
  from receive_loop_op9_flag [OF this, of e msgs]
  have f: "op9_flag (snd (receive_loop e msgs b1))" .
  obtain r b' where m: "receive_loop e msgs b1 = (r, b')" by (cases "receive_loop e msgs b1")
  with f have "op9_flag b'" by simp
  with Opened m show ?thesis
    by (cases r) (simp_all add: connect_def Let_def b1_def)
qed

lemma starter_loop_op9_flag: "op9_flag b \<Longrightarrow> op9_flag (snd (starter_loop e cs b))"
proof (induction cs arbitrary: b)
  case Nil
  then show ?case by simp
next
  case (Cons c cs)
  define b1 where "b1 = b\<lparr>re_connect := (if reconnect_times b \<ge> 20 then False else True)\<rparr>"
  have "op9_flag b1" using Cons.prems by (simp add: b1_def)
  from connect_op9_flag [OF this, of e c] have f: "op9_flag (snd (connect e c b1))" .
  obtain r b' where m: "connect e c b1 = (r, b')" by (cases "connect e c b1")
  with f have f': "op9_flag b'" by simp
  then have "op9_flag (emit [Slept] b')" by simp
  from Cons.IH [OF this] f' m Cons.prems show ?case
    by (cases r) (simp_all add: b1_def)
qed

lemma static_fields [simp]:
  "connect_paras (b\<lparr>trace := tr\<rparr>) = connect_paras b"
  "connect_paras (b\<lparr>s := sq\<rparr>) = connect_paras b"
  "connect_paras (b\<lparr>heartbeat_time := h\<rparr>) = connect_paras b"
  "connect_paras (b\<lparr>ws_closed := w\<rparr>) = connect_paras b"
  "connect_paras (b\<lparr>reconnect_times := n\<rparr>) = connect_paras b"
  "connect_paras (b\<lparr>re_connect := rc\<rparr>) = connect_paras b"
  by (simp_all add: connect_paras_def token_def)

lemma starter_loop_hello:
  assumes "running b" and "py_eq_int (dict_get hello ''op'') 10" and "hello_interval e hello = Inr n"
  shows "(let b' = snd (starter_loop e [Opened [TEXT (Some (JDict hello))]] b)
          in re_connect b' = (reconnect_times b < 20)
             \<and> trace b' = trace b @ [Sent (if 20 \<le> reconnect_times b then connect_paras b
                                            else reconnect_paras b')])"
  using assms
  by (auto simp: connect_def main_def Let_def handshake_def send_connect_def send_reconnect_def
                 ws_send_def emit_def reconnect_paras_def token_def)

section \<open>The sequence number, invalid sessions and the reconnect counter\<close>

text \<open>
  C9, as the code has it. A frame that carries \<^verbatim>\<open>s\<close> overwrites the stored sequence value
  with its own, whatever was stored and whatever the frame does next; a frame without
  \<^verbatim>\<open>s\<close> leaves it as it is. So after a frame with \<^verbatim>\<open>s\<close> the stored value is not below
  the one before exactly when the frame's value is not below it.
\<close>

theorem sequence_overwritten:
  "s (snd (main e (JDict data) b)) = (if has_key ''s'' data then dict_get data ''s'' else s b)
   \<and> (has_key ''s'' data \<longrightarrow>
        seq_le (s b) (s (snd (main e (JDict data) b))) = seq_le (s b) (dict_get data ''s''))"
  by (simp add: main_s)

theorem sequence_overwritten_witness:
  "s (snd (main env0 (JDict resumed_seq3) bot_seq5)) = JInt 3"
  using sequence_overwritten [of env0 resumed_seq3 bot_seq5]
  by (simp add: resumed_seq3_def has_key_def dict_get_def)

text \<open>
  C9 as the specification words it fails: with 5 stored, a frame that carries the
  sequence number 3 leaves 3 stored.
\<close>

theorem sequence_decreases:
  "s bot_seq5 = JInt 5
   \<and> s (snd (main env0 (JDict resumed_seq3) bot_seq5)) = JInt 3
   \<and> \<not> seq_le (s bot_seq5) (s (snd (main env0 (JDict resumed_seq3) bot_seq5)))"
  by (simp add: main_def Let_def resumed_seq3_def has_key_def dict_get_def bot_seq5_def bot0_def
        start_heartbeat_def emit_def)

text \<open>
  C3, as the code has it. An invalid-session frame (op 9) that finds \<^verbatim>\<open>op9_flag\<close> unset
  sets it, sends the identify frame when \<^verbatim>\<open>re_connect\<close> is false and the resume frame
  otherwise (if the websocket is open), and the loop goes on. One that finds the flag set
  logs the fatal error and ends the process. No frame, no connection attempt and no round
  of the reconnect loop clears the flag: after the first invalid-session frame every later
  one is fatal, in the same connection attempt or in any later one.
\<close>

theorem invalid_session_first_then_fatal:
  assumes "py_eq_int (dict_get data ''op'') 9"
  shows "(let r = main e (JDict data) b in
          if op9_flag b
          then fst r = Exits \<and> trace (snd r) = trace b @ [Log Err InvalidSessionFatal]
          else fst r = Returns \<and> op9_flag (snd r) \<and>
               trace (snd r) = trace b @
                 (if ws_closed b then []
                  else [Sent (if re_connect b then reconnect_paras (snd r)
                              else connect_paras b)]))
         \<and> (op9_flag b \<longrightarrow>
              op9_flag (snd (main e msg b)) \<and> op9_flag (snd (connect e c b))
              \<and> op9_flag (snd (starter_loop e cs b)))"
  using main_invalid_session [OF assms, of e b] main_op9_flag [of b e msg]
    connect_op9_flag [of b e c] starter_loop_op9_flag [of b e cs]
  by simp

theorem invalid_session_first_then_fatal_witness:
  "fst (main env0 (JDict invalid_session0) (bot0\<lparr>ws_closed := False\<rparr>)) = Returns
   \<and> op9_flag (snd (main env0 (JDict invalid_session0) (bot0\<lparr>ws_closed := False\<rparr>)))
   \<and> trace (snd (main env0 (JDict invalid_session0) (bot0\<lparr>ws_closed := False\<rparr>)))
       = [Sent (connect_paras bot0)]"
proof -
  have a: "py_eq_int (dict_get invalid_session0 ''op'') 9"
    by (simp add: invalid_session0_def dict_get_def)
  have b: "\<not> op9_flag (bot0\<lparr>ws_closed := False\<rparr>)" "\<not> ws_closed (bot0\<lparr>ws_closed := False\<rparr>)"
    "\<not> re_connect (bot0\<lparr>ws_closed := False\<rparr>)" "trace (bot0\<lparr>ws_closed := False\<rparr>) = []"
    by (simp_all add: bot0_def)
  show ?thesis
    using invalid_session_first_then_fatal [OF a, of env0 "bot0\<lparr>ws_closed := False\<rparr>"] b
    by (simp add: Let_def)
qed

text \<open>
  C3 as the specification words it fails: one invalid-session frame in the first
  connection attempt and one in the second, each after the hello of its own attempt. The
  first is answered by a second identify frame; the one in the fresh attempt is not
  treated as a first occurrence: it is fatal.
\<close>

theorem invalid_session_in_second_attempt_exits:
  "fst (starter env0 two_attempts bot0) = Exits
   \<and> trace (snd (starter env0 two_attempts bot0))
       = [Sent (connect_paras bot0), Sent (connect_paras bot0), Log Warn Disconnected,
          Sent (reconnect_paras bot0), Log Err InvalidSessionFatal]"
  by (simp add: starter_def two_attempts_def connect_def main_def Let_def hello0_def
        invalid_session0_def handshake_def send_connect_def send_reconnect_def ws_send_def
        emit_def reconnect_paras_def connect_paras_def token_def bot0_def env0_def
        hello_interval_def id_at_def py_int_def dict_get_def has_key_def cancel_heartbeat_def)

text \<open>
  C6. Processing a frame sets the reconnect counter to 0 when the frame is a READY dispatch
  (one that carries the session id the branch reads first) or a RESUMED dispatch, and
  leaves the counter as it is for every other frame. And a round of the reconnect loop
  that starts with the counter at 20 or more clears \<^verbatim>\<open>re_connect\<close>, so the hello of that
  connection attempt is answered with the identify frame; below 20 it is answered with
  the resume frame.
\<close>

theorem reconnect_counter_reset_and_identify_after_20:
  "reconnect_times (snd (main e msg b)) = (if ready_or_resumed msg then 0 else reconnect_times b)
   \<and> (running b \<and> py_eq_int (dict_get hello ''op'') 10 \<and> hello_interval e hello = Inr n \<longrightarrow>
        (let b' = snd (starter_loop e [Opened [TEXT (Some (JDict hello))]] b)
         in re_connect b' = (reconnect_times b < 20)
            \<and> trace b' = trace b @ [Sent (if 20 \<le> reconnect_times b then connect_paras b
                                           else reconnect_paras b')]))"
  using main_reconnect_times [of e msg b] starter_loop_hello [of b hello e n]
  by blast

theorem reconnect_counter_reset_and_identify_after_20_witness:
  "reconnect_times (snd (main env0 (JDict resumed_seq3) bot_20)) = 0
   \<and> reconnect_times (snd (main env0 (JDict hello0) bot_20)) = 20
   \<and> \<not> re_connect (snd (starter_loop env0 [Opened [TEXT (Some (JDict hello0))]] bot_20))
   \<and> trace (snd (starter_loop env0 [Opened [TEXT (Some (JDict hello0))]] bot_20))
       = [Sent (connect_paras bot_20)]"
proof -
  have a: "ready_or_resumed (JDict resumed_seq3)" "\<not> ready_or_resumed (JDict hello0)"
    by (simp_all add: ready_or_resumed_def resumed_seq3_def hello0_def dict_get_def)
  have b: "running bot_20" "reconnect_times bot_20 = 20" "trace bot_20 = []"
    by (simp_all add: bot_20_def bot0_def)
  have c: "py_eq_int (dict_get hello0 ''op'') 10" "hello_interval env0 hello0 = Inr 41250"
    by (simp_all add: hello0_def dict_get_def hello_interval_def id_at_def py_int_def)
  show ?thesis
    using reconnect_counter_reset_and_identify_after_20 [of env0 "JDict resumed_seq3" bot_20 hello0 41250]
      reconnect_counter_reset_and_identify_after_20 [of env0 "JDict hello0" bot_20 hello0 41250]
      a b c
    by (simp add: Let_def)
qed

section \<open>The heartbeat period\<close>

lemma double_0_001_nearest: "rne_div (2 ^ 62) 1000 = fst double_0_001"
  by (simp add: rne_div_def double_0_001_def Let_def)

lemma bit_length_lower: "0 < n \<Longrightarrow> 0 < bit_length n \<and> 2 ^ (bit_length n - 1) \<le> n"
proof (induction n rule: bit_length.induct)
  case (1 n)
  show ?case
  proof (cases "n div 2 = 0")
    case True
    with "1.prems" have "n = 1" by auto
    then show ?thesis by (simp add: bit_length.simps)
  next
    case False
    then have pos: "0 < n div 2" by simp
    have n0: "n \<noteq> 0" using "1.prems" by simp
    from "1.IH" [OF n0 pos]
    have ih: "0 < bit_length (n div 2)" "2 ^ (bit_length (n div 2) - 1) \<le> n div 2" by simp_all
    have eq: "bit_length n = Suc (bit_length (n div 2))"
      using n0 by (subst bit_length.simps) simp
    have "(2::nat) ^ (bit_length n - 1) = 2 * 2 ^ (bit_length (n div 2) - 1)"
      using ih(1) eq by (cases "bit_length (n div 2)") simp_all
    also have "\<dots> \<le> 2 * (n div 2)" using ih(2) by simp
    also have "\<dots> \<le> n" by simp
    finally show ?thesis using eq by simp
  qed
qed

lemma rne_div_error: "0 < d \<Longrightarrow> \<bar>2 * (rne_div a d * d - a)\<bar> \<le> d"
proof -
  assume d: "0 < d"
  define q where "q = a div d"
  define r where "r = a mod d"
  have a: "a = q * d + r" by (simp add: q_def r_def)
  have r: "0 \<le> r" "r < d" using d by (simp_all add: r_def)
  have "rne_div a d = q \<and> 2 * r \<le> d \<or> rne_div a d = q + 1 \<and> d \<le> 2 * r"
    by (auto simp: rne_div_def Let_def q_def r_def)
  then show ?thesis
  proof
    assume "rne_div a d = q \<and> 2 * r \<le> d"
    then show ?thesis using a r by (simp add: algebra_simps)
  next
    assume "rne_div a d = q + 1 \<and> d \<le> 2 * r"
    then show ?thesis using a r by (simp add: algebra_simps)
  qed
qed

lemma round53_error:
  "\<bar>double_value (round53 m e) - of_int m * 2 powi e\<bar> \<le> \<bar>of_int m * 2 powi e\<bar> / 2 ^ 53"
proof (cases "int (bit_length (nat \<bar>m\<bar>)) - 53 \<le> 0")
  case True
  then show ?thesis by (simp add: round53_def double_value_def Let_def)
next
  case False
  define k where "k = nat (int (bit_length (nat \<bar>m\<bar>)) - 53)"
  have k: "int k = int (bit_length (nat \<bar>m\<bar>)) - 53" "0 < k" using False by (simp_all add: k_def)
  have r: "round53 m e = (rne_div m (2 ^ k), e + int k)"
    using False k by (simp add: round53_def Let_def k_def)
  have mpos: "0 < nat \<bar>m\<bar>" using False by (cases "m = 0") (simp_all add: bit_length.simps)
  from bit_length_lower [OF mpos] have "2 ^ (bit_length (nat \<bar>m\<bar>) - 1) \<le> nat \<bar>m\<bar>" by simp
  moreover have "bit_length (nat \<bar>m\<bar>) - 1 = k + 52" using k by linarith
  ultimately have "(2::nat) ^ (k + 52) \<le> nat \<bar>m\<bar>" by simp
  then have "int (2 ^ (k + 52)) \<le> int (nat \<bar>m\<bar>)" by (rule iffD2 [OF of_nat_le_iff])
  then have low: "(2::int) ^ (k + 52) \<le> \<bar>m\<bar>" by simp
  define x where "x = rne_div m (2 ^ k) * 2 ^ k - m"
  have "\<bar>2 * x\<bar> \<le> (2::int) ^ k"
    unfolding x_def by (rule rne_div_error) simp
  then have "\<bar>2 * x\<bar> * 2 ^ 52 \<le> (2::int) ^ k * 2 ^ 52" by simp
  also have "\<dots> = 2 ^ (k + 52)" by (simp add: power_add)
  also have "\<dots> \<le> \<bar>m\<bar>" by (rule low)
  finally have "\<bar>2 * x\<bar> * 2 ^ 52 \<le> \<bar>m\<bar>" .
  moreover have "\<bar>2 * x\<bar> * 2 ^ 52 = \<bar>x\<bar> * 2 ^ 53" by (simp add: abs_mult)
  ultimately have "\<bar>x\<bar> * 2 ^ 53 \<le> \<bar>m\<bar>" by simp
  then have i: "\<bar>rne_div m (2 ^ k) * 2 ^ k - m\<bar> * 2 ^ 53 \<le> \<bar>m\<bar>" by (simp add: x_def)
  have "(of_int (\<bar>rne_div m (2 ^ k) * 2 ^ k - m\<bar> * 2 ^ 53) :: rat) \<le> of_int \<bar>m\<bar>"
    using i by (rule iffD2 [OF of_int_le_iff])
  then have q: "\<bar>of_int (rne_div m (2 ^ k)) * 2 ^ k - (of_int m :: rat)\<bar> * 2 ^ 53 \<le> \<bar>of_int m\<bar>"
    by simp
  have p: "(2::rat) powi (e + int k) = 2 powi e * 2 ^ k"
    by (simp add: power_int_add)
  have "double_value (round53 m e) - of_int m * 2 powi e
          = (of_int (rne_div m (2 ^ k)) * 2 ^ k - of_int m) * 2 powi e"
    by (simp add: r double_value_def p algebra_simps)
  then have "\<bar>double_value (round53 m e) - of_int m * 2 powi e\<bar>
          = \<bar>of_int (rne_div m (2 ^ k)) * 2 ^ k - (of_int m :: rat)\<bar> * 2 powi e"
    by (simp add: abs_mult)
  also have "\<dots> \<le> (\<bar>of_int m\<bar> / 2 ^ 53) * 2 powi e"
  proof (rule mult_right_mono)
    show "\<bar>of_int (rne_div m (2 ^ k)) * 2 ^ k - (of_int m :: rat)\<bar> \<le> \<bar>of_int m\<bar> / 2 ^ 53"
      using q by (simp add: field_simps)
    show "0 \<le> (2::rat) powi e" by simp
  qed
  also have "\<dots> = \<bar>of_int m * 2 powi e\<bar> / 2 ^ 53"
    by (simp add: abs_mult)
  finally show ?thesis .
qed


lemma float_of_int_error:
  "\<bar>double_value (float_of_int n) - of_int n\<bar> \<le> \<bar>of_int n\<bar> / 2 ^ 53"
  using round53_error [of n 0] by (simp add: float_of_int_def)

lemma float_mul_error:
  "\<bar>double_value (float_mul x y) - double_value x * double_value y\<bar>
     \<le> \<bar>double_value x * double_value y\<bar> / 2 ^ 53"
proof -
  have "of_int (fst x * fst y) * (2::rat) powi (snd x + snd y) = double_value x * double_value y"
    by (simp add: double_value_def power_int_add)
  with round53_error [of "fst x * fst y" "snd x + snd y"] show ?thesis
    by (simp add: float_mul_def)
qed

lemma double_0_001_value: "double_value double_0_001 = 4611686018427388 / 2 ^ 62"
  by (simp add: double_value_def double_0_001_def power_int_def field_simps)

lemma period_error:
  "\<bar>double_value (float_mul (float_of_int n) double_0_001) - of_int n / 1000\<bar>
     \<le> \<bar>of_int n / 1000\<bar> / 2 ^ 51"
proof -
  define N :: rat where "N = of_int n"
  define v where "v = double_value (float_of_int n)"
  define p where "p = double_value (float_mul (float_of_int n) double_0_001)"
  have a: "\<bar>v - N\<bar> \<le> \<bar>N\<bar> / 2 ^ 53"
    unfolding v_def N_def by (rule float_of_int_error)
  have "\<bar>p - v * (4611686018427388 / 2 ^ 62)\<bar> \<le> \<bar>v * (4611686018427388 / 2 ^ 62)\<bar> / 2 ^ 53"
    using float_mul_error [of "float_of_int n" double_0_001]
    unfolding p_def v_def double_0_001_value .
  then have b: "\<bar>p - v * (4611686018427388 / 2 ^ 62)\<bar> \<le> \<bar>v\<bar> * (4611686018427388 / 2 ^ 62) / 2 ^ 53"
    by (simp add: abs_mult)
  have "\<bar>p - N / 1000\<bar> \<le> \<bar>N\<bar> / 1000 / 2 ^ 51"
  proof -
    define A where "A = \<bar>N\<bar>"
    define V where "V = \<bar>v\<bar>"
    define c :: rat where "c = 4611686018427388 / 2 ^ 62"
    have c: "c = 1152921504606847 / 1152921504606846976" by (simp add: c_def)
    have a1: "v - N \<le> A / 2 ^ 53"
      using order_trans [OF abs_ge_self a] by (simp add: A_def)
    have a2: "N - v \<le> A / 2 ^ 53"
      using order_trans [OF abs_ge_minus_self a] by (simp add: A_def)
    have n: "0 \<le> A" by (simp add: A_def)
    have v1: "v \<le> V" and v2: "- v \<le> V" by (simp_all add: V_def)
    have n1: "N \<le> A" and n2: "- N \<le> A" by (simp_all add: A_def)
    have V: "V \<le> A + A / 2 ^ 53"
    proof (cases "0 \<le> v")
      case True
      then have "V = v" by (simp add: V_def)
      with a1 n1 show ?thesis by linarith
    next
      case False
      then have "V = - v" by (simp add: V_def)
      with a2 n2 show ?thesis by linarith
    qed
    have b': "\<bar>p - v * c\<bar> \<le> V * c / 2 ^ 53"
      using b by (simp add: c_def V_def)
    have b1: "p - v * c \<le> V * c / 2 ^ 53"
      using order_trans [OF abs_ge_self b'] .
    have b2: "v * c - p \<le> V * c / 2 ^ 53"
      using order_trans [OF abs_ge_minus_self b'] by simp
    have u: "p - N / 1000 \<le> A / 1000 / 2 ^ 51"
      using a1 a2 n V v1 v2 b1 b2 unfolding c by simp
    have l: "N / 1000 - p \<le> A / 1000 / 2 ^ 51"
      using a1 a2 n V v1 v2 b1 b2 unfolding c by simp
    show ?thesis
    proof (rule abs_leI)
      show "p - N / 1000 \<le> \<bar>N\<bar> / 1000 / 2 ^ 51" using u by (simp only: A_def)
      have "- (p - N / 1000) = N / 1000 - p" by simp
      then show "- (p - N / 1000) \<le> \<bar>N\<bar> / 1000 / 2 ^ 51" using l by (simp only: A_def)
    qed
  qed
  then show ?thesis by (simp add: p_def N_def)
qed

lemma main_hello:
  assumes "py_eq_int (dict_get data ''op'') 10" and "hello_interval e data = Inr n"
  shows "fst (main e (JDict data) b) = Returns"
    and "heartbeat_time (snd (main e (JDict data) b)) = float_mul (float_of_int n) double_0_001"
  using assms
  by (simp_all add: main_def Let_def handshake_def send_connect_def send_reconnect_def ws_send_def
        emit_def)

text \<open>
  C7, as the code has it. A hello frame (op 10) whose \<^verbatim>\<open>heartbeat_interval\<close> converts to
  the integer \<open>n\<close> sets the heartbeat period to the double \<^verbatim>\<open>float(n * 0.001)\<close>: \<open>n\<close> as a
  double, times the double nearest to 0.001, rounded to the nearest double. That double is
  within a relative error of \<open>2 ^ -51\<close> of the number \<open>n / 1000\<close>.
\<close>

theorem hello_sets_rounded_period:
  assumes "py_eq_int (dict_get data ''op'') 10" and "hello_interval e data = Inr n"
  shows "heartbeat_time (snd (main e (JDict data) b)) = float_mul (float_of_int n) double_0_001
         \<and> \<bar>double_value (heartbeat_time (snd (main e (JDict data) b))) - spec_period n\<bar>
             \<le> \<bar>spec_period n\<bar> / 2 ^ 51"
  using main_hello(2) [OF assms, of b] period_error [of n]
  by (simp add: spec_period_def)

theorem hello_sets_rounded_period_witness:
  "heartbeat_time (snd (main env0 (JDict hello0) bot0)) = (5805421394657280, - 47)
   \<and> double_value (5805421394657280, - 47) = spec_period 41250
   \<and> \<bar>double_value (heartbeat_time (snd (main env0 (JDict hello0) bot0))) - spec_period 41250\<bar>
       \<le> \<bar>spec_period 41250\<bar> / 2 ^ 51"
proof -
  have a: "py_eq_int (dict_get hello0 ''op'') 10" "hello_interval env0 hello0 = Inr 41250"
    by (simp_all add: hello0_def dict_get_def hello_interval_def id_at_def py_int_def)
  have b: "float_mul (float_of_int 41250) double_0_001 = (5805421394657280, - 47)"
    by (simp add: float_mul_def float_of_int_def round53_def double_0_001_def bit_length.simps
          rne_div_def Let_def)
  have c: "double_value (5805421394657280, - 47) = spec_period 41250"
    by (simp add: double_value_def spec_period_def power_int_def field_simps)
  show ?thesis
    using hello_sets_rounded_period [OF a, of bot0] b c by simp
qed

text \<open>
  C7 as the specification words it fails: for an interval of 9 milliseconds the period
  that is stored is the double 5188146770730812 / 2 ^ 59 (Python prints it as
  0.009000000000000001). It is not the number 9/1000, and it is not the double nearest to
  9/1000 either, which is 5188146770730811 / 2 ^ 59.
\<close>

theorem period_of_9_is_not_9_thousandths:
  "heartbeat_time (snd (main env0 (JDict hello_9) bot0)) = (5188146770730812, - 59)
   \<and> double_value (heartbeat_time (snd (main env0 (JDict hello_9) bot0))) \<noteq> spec_period 9
   \<and> rne_div (9 * 2 ^ 59) 1000 = 5188146770730811"
proof -
  have a: "float_mul (float_of_int 9) double_0_001 = (5188146770730812, - 59)"
    by (simp add: float_mul_def float_of_int_def round53_def double_0_001_def bit_length.simps
          rne_div_def Let_def)
  have b: "heartbeat_time (snd (main env0 (JDict hello_9) bot0)) = (5188146770730812, - 59)"
    by (simp add: main_def Let_def hello_9_def dict_get_def has_key_def hello_interval_def
          id_at_def py_int_def handshake_def send_connect_def send_reconnect_def ws_send_def
          emit_def bot0_def a)
  have c: "double_value (5188146770730812, - 59) \<noteq> spec_period 9"
    by (simp add: double_value_def spec_period_def power_int_def field_simps)
  have d: "rne_div (9 * 2 ^ 59) 1000 = 5188146770730811"
    by (simp add: rne_div_def Let_def)
  from b c d show ?thesis by simp
qed

end
